theory Spec2Isabelle
  imports Main "HOL-Library.Sublist"
begin

section \<open>Strings and paths\<close>

text \<open>
  Python strings are modelled as \<^typ>\<open>string\<close>. The texts the commands handle (command
  lines, paths, the coverage tool's table) are ASCII; the few non-ASCII characters of the
  source's messages are written as their UTF-8 bytes. Among the characters below 256 the
  regular expression class \<^verbatim>\<open>\d\<close> is exactly \<^verbatim>\<open>0\<close>..\<^verbatim>\<open>9\<close>.
\<close>

definition nl :: char where
  "nl = CHR 0x0A"

definition dq :: char where
  "dq = CHR 0x22"

definition sq :: char where
  "sq = CHR 0x27"

text \<open>\<^verbatim>\<open>sep.join(xs)\<close>\<close>

fun join :: "string \<Rightarrow> string list \<Rightarrow> string" where
  "join sep [] = []"
| "join sep [x] = x"
| "join sep (x # y # ys) = x @ sep @ join sep (y # ys)"

text \<open>\<^verbatim>\<open>s.replace(old, new)\<close> for a non-empty \<^verbatim>\<open>old\<close>: every non-overlapping occurrence, from the left.\<close>

fun str_replace :: "string \<Rightarrow> string \<Rightarrow> string \<Rightarrow> string" where
  "str_replace old new [] = []"
| "str_replace old new (c # cs) =
     (if old \<noteq> [] \<and> prefix old (c # cs)
      then new @ str_replace old new (drop (length old - 1) cs)
      else c # str_replace old new cs)"

text \<open>
  \<^verbatim>\<open>str.title()\<close> on ASCII letters: a letter that follows a letter is lowered, a letter that
  does not is raised, every other character is kept and ends the word.
\<close>

definition ascii_lowercase :: string where
  "ascii_lowercase = ''abcdefghijklmnopqrstuvwxyz''"

definition ascii_uppercase :: string where
  "ascii_uppercase = ''ABCDEFGHIJKLMNOPQRSTUVWXYZ''"

definition is_lower :: "char \<Rightarrow> bool" where
  "is_lower c = (c \<in> set ascii_lowercase)"

definition is_upper :: "char \<Rightarrow> bool" where
  "is_upper c = (c \<in> set ascii_uppercase)"

definition to_upper :: "char \<Rightarrow> char" where
  "to_upper c = (case map_of (zip ascii_lowercase ascii_uppercase) c of Some u \<Rightarrow> u | None \<Rightarrow> c)"

definition to_lower :: "char \<Rightarrow> char" where
  "to_lower c = (case map_of (zip ascii_uppercase ascii_lowercase) c of Some l \<Rightarrow> l | None \<Rightarrow> c)"

fun title_from :: "bool \<Rightarrow> string \<Rightarrow> string" where
  "title_from previous_is_cased [] = []"
| "title_from previous_is_cased (c # cs) =
     (if is_lower c then (if previous_is_cased then c else to_upper c) # title_from True cs
      else if is_upper c then (if previous_is_cased then to_lower c else c) # title_from True cs
      else c # title_from False cs)"

definition title :: "string \<Rightarrow> string" where
  "title s = title_from False s"

text \<open>\<^verbatim>\<open>str(n)\<close> for an integer.\<close>

fun show_nat :: "nat \<Rightarrow> string" where
  "show_nat n = (if n < 10 then [''0123456789'' ! n] else show_nat (n div 10) @ [''0123456789'' ! (n mod 10)])"

definition show_int :: "int \<Rightarrow> string" where
  "show_int i = (if i < 0 then CHR ''-'' # show_nat (nat (- i)) else show_nat (nat i))"

text \<open>
  A \<^verbatim>\<open>pathlib.Path\<close> is modelled by its string. \<^verbatim>\<open>p / s\<close> appends the segment after a
  slash and drops the segment's trailing slashes; the directories of the configuration
  are taken as normalised, non-empty paths and the segments the source joins contain no
  \<^verbatim>\<open>.\<close> or empty components, so no other normalisation of pathlib applies.
\<close>

type_synonym path = string

definition rstrip_slash :: "string \<Rightarrow> string" where
  "rstrip_slash s = rev (dropWhile (\<lambda>c. c = CHR ''/'') (rev s))"

definition joinpath :: "path \<Rightarrow> string \<Rightarrow> path" where
  "joinpath p s = p @ ''/'' @ rstrip_slash s"

text \<open>\<^verbatim>\<open>p.name\<close>: the final component; \<^verbatim>\<open>p.with_name(n)\<close>: the same path with that component replaced.\<close>

definition path_name :: "path \<Rightarrow> string" where
  "path_name p = rev (takeWhile (\<lambda>c. c \<noteq> CHR ''/'') (rev p))"

definition with_name :: "path \<Rightarrow> string \<Rightarrow> path" where
  "with_name p n = take (length p - length (path_name p)) p @ n"

text \<open>\<^verbatim>\<open>p.absolute()\<close>, the working directory being a parameter.\<close>

definition absolute :: "path \<Rightarrow> path \<Rightarrow> path" where
  "absolute cwd p = (if prefix ''/'' p then p else joinpath cwd p)"

section \<open>The regular expression of the coverage extraction\<close>

text \<open>
  \<^verbatim>\<open>re.search(r"TOTAL.*?([\d.]+%)", output)\<close> as the backtracking matcher runs it: start
  positions from the left; at a start position the literal \<^verbatim>\<open>TOTAL\<close>, then the lazy
  \<^verbatim>\<open>.*?\<close> (no character first, one more non-newline character after each failure), then
  the greedy class \<^verbatim>\<open>[\d.]+\<close> (as many characters as possible, given back one at a time)
  and the percent sign. The result is the text of group 1.
\<close>

definition is_class :: "char \<Rightarrow> bool" where
  "is_class c = (c \<in> set ''0123456789.'')"

definition pct_here :: "string \<Rightarrow> string \<Rightarrow> string option" where
  "pct_here acc s =
     (case s of [] \<Rightarrow> None | c # cs \<Rightarrow> if c = CHR ''%'' then Some (acc @ ''%'') else None)"

fun group_more :: "string \<Rightarrow> string \<Rightarrow> string option" where
  "group_more acc [] = pct_here acc []"
| "group_more acc (c # cs) =
     (if is_class c
      then (case group_more (acc @ [c]) cs of
              Some g \<Rightarrow> Some g
            | None \<Rightarrow> pct_here acc (c # cs))
      else pct_here acc (c # cs))"

definition group_at :: "string \<Rightarrow> string option" where
  "group_at s = (case s of [] \<Rightarrow> None | c # cs \<Rightarrow> if is_class c then group_more [c] cs else None)"

fun lazy_dot :: "string \<Rightarrow> string option" where
  "lazy_dot [] = group_at []"
| "lazy_dot (c # cs) =
     (case group_at (c # cs) of
        Some g \<Rightarrow> Some g
      | None \<Rightarrow> if c \<noteq> nl then lazy_dot cs else None)"

definition match_at :: "string \<Rightarrow> string option" where
  "match_at s = (if prefix ''TOTAL'' s then lazy_dot (drop 5 s) else None)"

fun re_search :: "string \<Rightarrow> string option" where
  "re_search [] = match_at []"
| "re_search (c # cs) = (case match_at (c # cs) of Some g \<Rightarrow> Some g | None \<Rightarrow> re_search cs)"

section \<open>Effects: the file system, the console and the external tools\<close>

text \<open>
  Everything a command does is recorded in a \<open>world\<close>: the contents of the files, and the
  trace of what was shown or started, in order. The helpers of \<^verbatim>\<open>toolbox.utils\<close>, which is
  not among the sources, and the library calls that show something are one event each:
  \<^verbatim>\<open>print_header\<close> (text, level, icon), \<^verbatim>\<open>ensure_reports_dir\<close>, \<^verbatim>\<open>format_messages\<close> (applied
  to what \<^verbatim>\<open>read_contents\<close> read), \<^verbatim>\<open>print\<close>, \<^verbatim>\<open>cprint\<close>, \<^verbatim>\<open>click.secho\<close> and
  \<^verbatim>\<open>webbrowser.open\<close>. Directories are not part of the file map.
\<close>

datatype event =
    Header string "nat option" "string option"
  | EnsureReportsDir path
  | Run string "(string \<times> string) list"
  | FormatMessages string
  | Print string
  | CPrint string string
  | Secho string string
  | BrowserOpen string

datatype error =
    UnexpectedExit string nat
  | RuntimeError string
  | FileNotFoundError path
  | Exit nat

record world =
  fs :: "path \<rightharpoonup> string"
  trace :: "event list"

text \<open>
  An external tool maps the command line, the environment overlay and the files to its
  exit status, its standard output and the files it leaves.
\<close>

type_synonym tool = "string \<Rightarrow> (string \<times> string) list \<Rightarrow> (path \<rightharpoonup> string) \<Rightarrow> nat \<times> string \<times> (path \<rightharpoonup> string)"

definition emit :: "event \<Rightarrow> world \<Rightarrow> world" where
  "emit e w = w\<lparr>trace := trace w @ [e]\<rparr>"

text \<open>\<^verbatim>\<open>ctx.run(cmd, env=...)\<close> of invoke: a non-zero exit status raises.\<close>

definition ctx_run :: "tool \<Rightarrow> string \<Rightarrow> (string \<times> string) list \<Rightarrow> world \<Rightarrow> (error + string) \<times> world" where
  "ctx_run tool cmd env w =
     (case tool cmd env (fs w) of
        (code, out, fs') \<Rightarrow>
          (if code = 0 then Inr out else Inl (UnexpectedExit cmd code),
           (emit (Run cmd env) w)\<lparr>fs := fs'\<rparr>))"

text \<open>\<^verbatim>\<open>shutil.copy(src, dst)\<close>\<close>

definition shutil_copy :: "path \<Rightarrow> path \<Rightarrow> world \<Rightarrow> (error + unit) \<times> world" where
  "shutil_copy src dst w =
     (case fs w src of
        None \<Rightarrow> (Inl (FileNotFoundError src), w)
      | Some content \<Rightarrow> (Inr (), w\<lparr>fs := (fs w)(dst \<mapsto> content)\<rparr>))"

text \<open>The commands started so far.\<close>

fun command_of :: "event \<Rightarrow> string list" where
  "command_of (Run cmd env) = [cmd]"
| "command_of _ = []"

definition commands :: "world \<Rightarrow> string list" where
  "commands w = concat (map command_of (trace w))"

section \<open>lint.py\<close>

record project =
  source_directory :: path
  tests_directory :: path
  reports_directory :: path
  root_directory :: path

definition pydocstyle_command :: "project \<Rightarrow> path \<Rightarrow> string" where
  "pydocstyle_command p report_pydocstyle_fpath =
     ''pydocstyle '' @ source_directory p @ '' > '' @ report_pydocstyle_fpath"

definition lint_pydocstyle :: "tool \<Rightarrow> project \<Rightarrow> world \<Rightarrow> (error + unit) \<times> world" where
  "lint_pydocstyle tool p w =
     (let w1 = emit (Header ''documentation style'' (Some 2) None) w;
          w2 = emit (EnsureReportsDir (project.reports_directory p)) w1;
          report_pydocstyle_fpath = joinpath (project.reports_directory p) ''pydocstyle-report.log'';
          (r, w3) = ctx_run tool (pydocstyle_command p report_pydocstyle_fpath) [] w2;
          w4 = (case fs w3 report_pydocstyle_fpath of
                  Some content \<Rightarrow> emit (FormatMessages content) w3
                | None \<Rightarrow> w3)
      in (case r of Inl e \<Rightarrow> (Inl e, w4) | Inr out \<Rightarrow> (Inr (), w4)))"

definition pycodestyle_command :: "string \<Rightarrow> path \<Rightarrow> string" where
  "pycodestyle_command dirs report_pycodestyle_fpath =
     ''pycodestyle --ignore=E501,W503,E231,E203,E402 ''
     @ ''--exclude=.svn,CVS,.bzr,.hg,.git,__pycache__,.tox,*_config_parser.py ''
     @ dirs @ '' > '' @ report_pycodestyle_fpath"

definition lint_pycodestyle :: "tool \<Rightarrow> project \<Rightarrow> world \<Rightarrow> (error + unit) \<times> world" where
  "lint_pycodestyle tool p w =
     (let w1 = emit (Header ''code style (PEP8)'' (Some 2) None) w;
          w2 = emit (EnsureReportsDir (project.reports_directory p)) w1;
          dirs = source_directory p @ '' '' @ project.tests_directory p;
          report_pycodestyle_fpath = joinpath (project.reports_directory p) ''pycodestyle-report.log'';
          (r, w3) = ctx_run tool (pycodestyle_command dirs report_pycodestyle_fpath) [] w2;
          w4 = (case fs w3 report_pycodestyle_fpath of
                  Some content \<Rightarrow> emit (FormatMessages content) w3
                | None \<Rightarrow> w3)
      in (case r of Inl e \<Rightarrow> (Inl e, w4) | Inr out \<Rightarrow> (Inr (), w4)))"

definition check_mark :: string where
  "check_mark = [CHR 0xE2, CHR 0x9C, CHR 0x94]"

definition pylint_command :: "path \<Rightarrow> path list \<Rightarrow> path \<Rightarrow> string" where
  "pylint_command pylintrc_fpath source_dirs report_path =
     ''pylint --rcfile '' @ pylintrc_fpath @ '' '' @ join '' '' source_dirs @ '' > '' @ report_path"

definition run_pylint :: "tool \<Rightarrow> project \<Rightarrow> path list \<Rightarrow> path \<Rightarrow> path \<Rightarrow> world \<Rightarrow> (error + unit) \<times> world" where
  "run_pylint tool p source_dirs report_path pylintrc_fpath w =
     (let w1 = emit (Header (join '', '' source_dirs) (Some 3) None) w;
          w2 = emit (EnsureReportsDir (project.reports_directory p)) w1
      in (case ctx_run tool (pylint_command pylintrc_fpath source_dirs report_path) [] w2 of
            (Inl runtime_error, w3) \<Rightarrow>
              (Inl runtime_error,
               (case fs w3 report_path of
                  Some content \<Rightarrow> emit (Print content) w3
                | None \<Rightarrow> w3))
          | (Inr out, w3) \<Rightarrow> (Inr (), emit (CPrint (check_mark @ '' No issues found.'') ''green'') w3)))"

definition lint_pylint :: "tool \<Rightarrow> project \<Rightarrow> world \<Rightarrow> (error + unit) \<times> world" where
  "lint_pylint tool p w =
     (let w1 = emit (Header ''pylint'' (Some 2) None) w
      in (case run_pylint tool p [source_directory p]
                 (joinpath (project.reports_directory p) ''pylint-report.log'')
                 (joinpath (root_directory p) ''.pylintrc'') w1 of
            (Inl e, w2) \<Rightarrow> (Inl e, w2)
          | (Inr u, w2) \<Rightarrow>
              run_pylint tool p [project.tests_directory p]
                (joinpath (project.reports_directory p) ''pylint-report-tests.log'')
                (joinpath (project.tests_directory p) ''.pylintrc'') w2))"

definition COMMANDS :: "(tool \<Rightarrow> project \<Rightarrow> world \<Rightarrow> (error + unit) \<times> world) list" where
  "COMMANDS = [lint_pylint, lint_pycodestyle, lint_pydocstyle]"

text \<open>
  \<^verbatim>\<open>for command in _COMMANDS: click_context.forward(command)\<close>: an exception raised by a
  command leaves the loop.
\<close>

fun forward_all :: "(world \<Rightarrow> (error + unit) \<times> world) list \<Rightarrow> world \<Rightarrow> (error + unit) \<times> world" where
  "forward_all [] w = (Inr (), w)"
| "forward_all (command # rest) w =
     (case command w of
        (Inl e, w') \<Rightarrow> (Inl e, w')
      | (Inr u, w') \<Rightarrow> forward_all rest w')"

definition magnifier :: string where
  "magnifier = [CHR 0xF0, CHR 0x9F, CHR 0x94, CHR 0x8E]"

definition lint :: "tool \<Rightarrow> project \<Rightarrow> world \<Rightarrow> (error + unit) \<times> world" where
  "lint tool p w =
     forward_all (map (\<lambda>command. command tool p) COMMANDS) (emit (Header ''Linting'' None (Some magnifier)) w)"

section \<open>test.py\<close>

record toolbox =
  test_types :: "string list"
  tests_directory :: "path option"
  sources_directory :: path
  reports_directory :: path

text \<open>
  The decorator \<^verbatim>\<open>handle_invoke_exceptions\<close> comes from \<^verbatim>\<open>toolbox.utils\<close>, which is not among
  the sources. It is taken as a parameter: \<open>h\<close> is what it makes of a raised exception,
  and a normal return passes through. The properties below are stated for the decorated
  functions' bodies.
\<close>

definition handle_invoke_exceptions :: "(error \<Rightarrow> error + unit) \<Rightarrow> (error + unit) \<times> world \<Rightarrow> (error + unit) \<times> world" where
  "handle_invoke_exceptions h r = (case r of (Inl e, w) \<Rightarrow> (h e, w) | (Inr u, w) \<Rightarrow> (Inr u, w))"

definition variation_selector :: string where
  "variation_selector = [CHR 0xEF, CHR 0xB8, CHR 0x8F]"

definition bug :: string where
  "bug = [CHR 0xF0, CHR 0x9F, CHR 0x90, CHR 0x9B]"

definition page :: string where
  "page = [CHR 0xF0, CHR 0x9F, CHR 0x93, CHR 0x83]"

text \<open>
  The command lines are the source's f-strings, character for character; in the pytest
  command a backslash at the end of a line joins it to the next, indentation included.
\<close>

definition pytest_command :: "toolbox \<Rightarrow> path \<Rightarrow> string \<Rightarrow> int \<Rightarrow> bool \<Rightarrow> string" where
  "pytest_command tb tests_dir name maxfail debug =
     [nl] @ ''        pytest ''
     @ ''            --cov='' @ sources_directory tb @ '' ''
     @ ''            --cov-report='' @ [dq] @ ''xml:''
         @ joinpath (toolbox.reports_directory tb) (''coverage-'' @ name @ ''.xml'') @ [dq] @ '' ''
     @ ''            --cov-branch -vv --maxfail='' @ show_int maxfail @ '' '' @ (if debug then ''-s'' else [])
     @ ''            '' @ joinpath tests_dir name @ [nl]
     @ ''        ''"

definition run_tests_body :: "tool \<Rightarrow> toolbox \<Rightarrow> string \<Rightarrow> int \<Rightarrow> bool \<Rightarrow> world \<Rightarrow> (error + unit) \<times> world" where
  "run_tests_body tool tb name maxfail debug w =
     (if name \<notin> set (test_types tb) then (Inr (), w)
      else (case toolbox.tests_directory tb of
              None \<Rightarrow> (Inr (), w)
            | Some tests_dir \<Rightarrow>
                (let w1 = emit (Header (variation_selector @ ''Running '' @ name @ '' tests'' @ variation_selector)
                                  None (Some (magnifier @ bug))) w;
                     w2 = emit (EnsureReportsDir (toolbox.reports_directory tb)) w1
                 in (case ctx_run tool (pytest_command tb tests_dir name maxfail debug)
                            [(''COVERAGE_FILE'',
                              joinpath (toolbox.reports_directory tb) (''coverage-'' @ name @ ''.dat''))] w2 of
                       (Inl e, w3) \<Rightarrow> (Inl e, w3)
                     | (Inr out, w3) \<Rightarrow> (Inr (), w3)))))"

definition run_tests :: "(error \<Rightarrow> error + unit) \<Rightarrow> tool \<Rightarrow> toolbox \<Rightarrow> string \<Rightarrow> int \<Rightarrow> bool \<Rightarrow> world \<Rightarrow> (error + unit) \<times> world" where
  "run_tests h tool tb name maxfail debug w =
     handle_invoke_exceptions h (run_tests_body tool tb name maxfail debug w)"

definition test_unit :: "(error \<Rightarrow> error + unit) \<Rightarrow> tool \<Rightarrow> toolbox \<Rightarrow> int \<Rightarrow> bool \<Rightarrow> world \<Rightarrow> (error + unit) \<times> world" where
  "test_unit h tool tb maxfail debug w = run_tests h tool tb ''unit'' maxfail debug w"

definition test_integration :: "(error \<Rightarrow> error + unit) \<Rightarrow> tool \<Rightarrow> toolbox \<Rightarrow> int \<Rightarrow> bool \<Rightarrow> world \<Rightarrow> (error + unit) \<times> world" where
  "test_integration h tool tb maxfail debug w = run_tests h tool tb ''integration'' maxfail debug w"

definition report_command :: "path \<Rightarrow> string" where
  "report_command coverage_dat =
     [nl] @ ''        export COVERAGE_FILE='' @ [dq] @ coverage_dat @ [dq] @ [nl]
     @ ''        coverage report''"

definition get_total_coverage :: "tool \<Rightarrow> path \<Rightarrow> world \<Rightarrow> (error + string) \<times> world" where
  "get_total_coverage tool coverage_dat w =
     (case ctx_run tool (report_command coverage_dat) [] w of
        (Inl e, w1) \<Rightarrow> (Inl e, w1)
      | (Inr output, w1) \<Rightarrow>
          (case re_search output of
             None \<Rightarrow> (Inl (RuntimeError (''Regex failed on output: '' @ output)), w1)
           | Some group1 \<Rightarrow> (Inr group1, w1)))"

definition category_dat :: "toolbox \<Rightarrow> string \<Rightarrow> path" where
  "category_dat tb test_type = joinpath (toolbox.reports_directory tb) (''coverage-'' @ test_type @ ''.dat'')"

definition temp_copy_of :: "path \<Rightarrow> path" where
  "temp_copy_of coverage_dat = with_name coverage_dat (str_replace ''.dat'' ''-copy.dat'' (path_name coverage_dat))"

definition missing_dat_warning :: "string \<Rightarrow> path \<Rightarrow> event" where
  "missing_dat_warning test_type coverage_dat =
     Secho (''Could not find coverage dat file for '' @ test_type @ '' tests: '' @ coverage_dat) ''yellow''"

text \<open>The loop over the test types; \<open>coverage_files\<close> is the list the loop appends to.\<close>

fun coverage_loop :: "tool \<Rightarrow> toolbox \<Rightarrow> string list \<Rightarrow> string list \<Rightarrow> world \<Rightarrow> (error + string list) \<times> world" where
  "coverage_loop tool tb [] coverage_files w = (Inr coverage_files, w)"
| "coverage_loop tool tb (test_type # rest) coverage_files w =
     (let coverage_dat = category_dat tb test_type
      in if fs w coverage_dat = None
         then coverage_loop tool tb rest coverage_files (emit (missing_dat_warning test_type coverage_dat) w)
         else (case get_total_coverage tool coverage_dat w of
                 (Inl e, w1) \<Rightarrow> (Inl e, w1)
               | (Inr percentage, w1) \<Rightarrow>
                   (let w2 = emit (Print (title test_type @ '' test coverage: '' @ percentage)) w1;
                        temp_copy = temp_copy_of coverage_dat
                    in (case shutil_copy coverage_dat temp_copy w2 of
                          (Inl e, w3) \<Rightarrow> (Inl e, w3)
                        | (Inr u, w3) \<Rightarrow> coverage_loop tool tb rest (coverage_files @ [temp_copy]) w3))))"

definition combine_command :: "path \<Rightarrow> string list \<Rightarrow> path \<Rightarrow> string" where
  "combine_command coverage_dat_combined coverage_files coverage_html =
     [nl] @ ''            export COVERAGE_FILE='' @ [dq] @ coverage_dat_combined @ [dq] @ [nl]
     @ ''            coverage combine '' @ join '' '' coverage_files @ [nl]
     @ ''            coverage html -d '' @ coverage_html @ [nl]
     @ ''        ''"

definition coverage_report_body :: "tool \<Rightarrow> toolbox \<Rightarrow> world \<Rightarrow> (error + unit) \<times> world" where
  "coverage_report_body tool tb w =
     (let w1 = emit (Header ''Generating coverage report'' None (Some page)) w;
          w2 = emit (EnsureReportsDir (toolbox.reports_directory tb)) w1;
          coverage_dat_combined = joinpath (toolbox.reports_directory tb) ''coverage.dat'';
          coverage_html = joinpath (toolbox.reports_directory tb) ''coverage-report/''
      in (case coverage_loop tool tb (test_types tb) [] w2 of
            (Inl e, w3) \<Rightarrow> (Inl e, w3)
          | (Inr coverage_files, w3) \<Rightarrow>
              (case ctx_run tool (combine_command coverage_dat_combined coverage_files coverage_html) [] w3 of
                 (Inl e, w4) \<Rightarrow> (Inl e, w4)
               | (Inr out, w4) \<Rightarrow>
                   (case get_total_coverage tool coverage_dat_combined w4 of
                      (Inl e, w5) \<Rightarrow> (Inl e, w5)
                    | (Inr total_coverage, w5) \<Rightarrow>
                        (Inr (),
                         emit (Print (''Refer to coverage report for full analysis in '' @ [sq] @ coverage_html
                                      @ ''/index.html'' @ [sq] @ [nl]
                                      @ ''Or open the report in your default browser with:'' @ [nl]
                                      @ ''  pipenv run inv coverage-open''))
                           (emit (Print (''Total coverage: '' @ total_coverage @ [nl])) w5))))))"

definition coverage_report :: "(error \<Rightarrow> error + unit) \<Rightarrow> tool \<Rightarrow> toolbox \<Rightarrow> world \<Rightarrow> (error + unit) \<times> world" where
  "coverage_report h tool tb w = handle_invoke_exceptions h (coverage_report_body tool tb w)"

text \<open>
  \<^verbatim>\<open>coverage_open\<close>. The names click gives the commands \<^verbatim>\<open>coverage_report\<close> and \<^verbatim>\<open>test_all\<close>
  and the working directory are parameters.
\<close>

definition coverage_open :: "string \<Rightarrow> string \<Rightarrow> path \<Rightarrow> toolbox \<Rightarrow> world \<Rightarrow> (error + unit) \<times> world" where
  "coverage_open coverage_report_name test_all_name cwd tb w =
     (let report_index = joinpath (joinpath (toolbox.reports_directory tb) ''coverage-report'') ''index.html''
      in if fs w report_index = None
         then (Inl (Exit 1),
               emit (Secho (''Could not find coverage report '' @ [sq] @ report_index @ [sq]
                            @ ''. Ensure that the report has been built.'' @ [nl]
                            @ ''Try one of the following:'' @ [nl]
                            @ ''  pipenv run inv '' @ coverage_report_name @ [nl]
                            @ ''or'' @ [nl]
                            @ ''  pipenv run inv '' @ test_all_name) ''red'') w)
         else (Inr (), emit (BrowserOpen (''file:///'' @ absolute cwd report_index)) w))"

section \<open>The statements of the specification\<close>

text \<open>
  The specification's wording of what the coverage tool's output must hold: a line with
  the token \<^verbatim>\<open>TOTAL\<close> followed, on that line, by a percentage token \<^verbatim>\<open>[\d.]+%\<close>.
\<close>

definition digit_or_dot :: "char \<Rightarrow> bool" where
  "digit_or_dot c = (c \<in> set ''0123456789.'')"

definition has_total_row :: "string \<Rightarrow> bool" where
  "has_total_row output =
     (\<exists>pre mid g post.
        output = pre @ ''TOTAL'' @ mid @ g @ ''%'' @ post
        \<and> nl \<notin> set mid \<and> g \<noteq> [] \<and> (\<forall>c \<in> set g. digit_or_dot c))"

text \<open>
  The specification's wording of which token is returned, as functions: the text after
  the first occurrence of \<^verbatim>\<open>TOTAL\<close>, the rest of its line, the leftmost percentage token
  there. A percentage token at the head of a text is its longest run of digits and dots,
  not empty, with a percent sign after it.
\<close>

fun after_first_total :: "string \<Rightarrow> string option" where
  "after_first_total [] = None"
| "after_first_total (c # cs) =
     (if prefix ''TOTAL'' (c # cs) then Some (drop 5 (c # cs)) else after_first_total cs)"

definition rest_of_line :: "string \<Rightarrow> string" where
  "rest_of_line s = takeWhile (\<lambda>c. c \<noteq> nl) s"

definition token_here :: "string \<Rightarrow> string option" where
  "token_here s =
     (let g = takeWhile digit_or_dot s
      in if g \<noteq> [] \<and> take 1 (drop (length g) s) = ''%'' then Some (g @ ''%'') else None)"

fun leftmost_token :: "string \<Rightarrow> string option" where
  "leftmost_token [] = None"
| "leftmost_token (c # cs) =
     (case token_here (c # cs) of Some t \<Rightarrow> Some t | None \<Rightarrow> leftmost_token cs)"

definition first_total_percentage :: "string \<Rightarrow> string option" where
  "first_total_percentage s =
     (case after_first_total s of None \<Rightarrow> None | Some r \<Rightarrow> leftmost_token (rest_of_line r))"

text \<open>The same for the earliest occurrence of \<^verbatim>\<open>TOTAL\<close> that has such a token after it on its line.\<close>

fun earliest_row_percentage :: "string \<Rightarrow> string option" where
  "earliest_row_percentage [] = None"
| "earliest_row_percentage (c # cs) =
     (if prefix ''TOTAL'' (c # cs) \<and> leftmost_token (rest_of_line (drop 5 (c # cs))) \<noteq> None
      then leftmost_token (rest_of_line (drop 5 (c # cs)))
      else earliest_row_percentage cs)"

text \<open>The order of the lint commands as the specification words it: style, docstring, static analysis.\<close>

definition spec_lint_order :: "project \<Rightarrow> string list" where
  "spec_lint_order p =
     [pycodestyle_command (source_directory p @ '' '' @ project.tests_directory p)
        (joinpath (project.reports_directory p) ''pycodestyle-report.log''),
      pydocstyle_command p (joinpath (project.reports_directory p) ''pydocstyle-report.log''),
      pylint_command (joinpath (root_directory p) ''.pylintrc'') [source_directory p]
        (joinpath (project.reports_directory p) ''pylint-report.log''),
      pylint_command (joinpath (project.tests_directory p) ''.pylintrc'') [project.tests_directory p]
        (joinpath (project.reports_directory p) ''pylint-report-tests.log'')]"

text \<open>The order in which the source lists them: static analysis (source tree, tests tree), style, docstring.\<close>

definition lint_sequence :: "project \<Rightarrow> string list" where
  "lint_sequence p =
     [pylint_command (joinpath (root_directory p) ''.pylintrc'') [source_directory p]
        (joinpath (project.reports_directory p) ''pylint-report.log''),
      pylint_command (joinpath (project.tests_directory p) ''.pylintrc'') [project.tests_directory p]
        (joinpath (project.reports_directory p) ''pylint-report-tests.log''),
      pycodestyle_command (source_directory p @ '' '' @ project.tests_directory p)
        (joinpath (project.reports_directory p) ''pycodestyle-report.log''),
      pydocstyle_command p (joinpath (project.reports_directory p) ''pydocstyle-report.log'')]"

text \<open>The events a command added to the trace.\<close>

definition added :: "world \<Rightarrow> world \<Rightarrow> event list" where
  "added w w' = drop (length (trace w)) (trace w')"

section \<open>Concrete inputs\<close>

definition w0 :: world where
  "w0 = \<lparr>fs = Map.empty, trace = []\<rparr>"

text \<open>A coverage tool whose table has no \<^verbatim>\<open>TOTAL\<close> row.\<close>

definition tool_no_total :: tool where
  "tool_no_total cmd env files = (0, ''Name   Stmts   Miss'', files)"

text \<open>A project, a tool that always succeeds, one that reports findings, one whose style check fails.\<close>

definition p0 :: project where
  "p0 = \<lparr>source_directory = ''/proj/src'', project.tests_directory = ''/proj/tests'',
         project.reports_directory = ''/proj/reports'', root_directory = ''/proj''\<rparr>"

definition tool_ok :: tool where
  "tool_ok cmd env files = (0, [], files)"

definition tool_findings :: tool where
  "tool_findings cmd env files =
     (if prefix ''pylint'' cmd
      then (4, [], files(''/proj/reports/pylint-report.log'' \<mapsto> ''a.py:1:0: C0114''))
      else if prefix ''pycodestyle'' cmd
      then (1, [], files(''/proj/reports/pycodestyle-report.log'' \<mapsto> ''a.py:3:1: E302''))
      else (0, [], files(''/proj/reports/pydocstyle-report.log'' \<mapsto> [])))"

definition tool_style_fails :: tool where
  "tool_style_fails cmd env files =
     (if prefix ''pycodestyle'' cmd
      then (1, [], files(''/proj/reports/pycodestyle-report.log'' \<mapsto> ''a.py:3:1: E302''))
      else (0, [], files))"

text \<open>
  A test configuration with the categories unit and integration, worlds that hold both,
  one or none of their coverage data files, a coverage tool that reports 80%, 60% and,
  for the combined file, 75%, and a configuration in which one category is named like
  the temporary copy of another.
\<close>

definition tb0 :: toolbox where
  "tb0 = \<lparr>test_types = [''unit'', ''integration''], toolbox.tests_directory = Some ''/proj/tests'',
          sources_directory = ''/proj/src'', toolbox.reports_directory = ''/proj/reports''\<rparr>"

definition w_both :: world where
  "w_both = \<lparr>fs = [''/proj/reports/coverage-unit.dat'' \<mapsto> ''unit data'',
                    ''/proj/reports/coverage-integration.dat'' \<mapsto> ''integration data''],
             trace = []\<rparr>"

definition w_integration_only :: world where
  "w_integration_only = \<lparr>fs = [''/proj/reports/coverage-integration.dat'' \<mapsto> ''integration data''],
                         trace = []\<rparr>"

definition tool_coverage :: tool where
  "tool_coverage cmd env files =
     (if cmd = report_command ''/proj/reports/coverage-unit.dat'' then (0, ''TOTAL 10 2 80%'', files)
      else if cmd = report_command ''/proj/reports/coverage-integration.dat'' then (0, ''TOTAL 10 4 60%'', files)
      else if cmd = report_command ''/proj/reports/coverage.dat'' then (0, ''TOTAL 20 5 75%'', files)
      else (0, [], (files(''/proj/reports/coverage.dat'' \<mapsto> ''combined data''))
                     (''/proj/reports/coverage-unit-copy.dat'' := None,
                      ''/proj/reports/coverage-integration-copy.dat'' := None)))"

definition tb_clash :: toolbox where
  "tb_clash = \<lparr>test_types = [''unit'', ''unit-copy''], toolbox.tests_directory = Some ''/proj/tests'',
               sources_directory = ''/proj/src'', toolbox.reports_directory = ''/proj/reports''\<rparr>"

definition w_clash :: world where
  "w_clash = \<lparr>fs = [''/proj/reports/coverage-unit.dat'' \<mapsto> ''unit data'',
                     ''/proj/reports/coverage-unit-copy.dat'' \<mapsto> ''unit-copy data''],
              trace = []\<rparr>"

definition tool_total80 :: tool where
  "tool_total80 cmd env files = (0, ''TOTAL 10 2 80%'', files)"

definition w_report :: world where
  "w_report = \<lparr>fs = [''/proj/reports/coverage-report/index.html'' \<mapsto> ''<html></html>''], trace = []\<rparr>"


text \<open>A docstring linter that leaves the same report whatever its exit status.\<close>

definition tool_docstyle_exit :: "nat \<Rightarrow> tool" where
  "tool_docstyle_exit code cmd env files =
     (code, [], files(''/proj/reports/pydocstyle-report.log'' \<mapsto> ''a.py:1 at module level: D100''))"

section \<open>The regular expression search, characterised\<close>

lemma is_class_not_pct: "is_class c \<Longrightarrow> c \<noteq> CHR ''%''"
  by (auto simp: is_class_def)

lemma is_class_not_nl: "is_class c \<Longrightarrow> c \<noteq> nl"
  by (auto simp: is_class_def nl_def)

lemma is_class_eq: "is_class = digit_or_dot"
  by (rule ext) (simp add: is_class_def digit_or_dot_def)

lemma digit_or_dot_not_pct: "digit_or_dot c \<Longrightarrow> c \<noteq> CHR ''%''"
  by (auto simp: digit_or_dot_def)

lemma digit_or_dot_not_nl: "digit_or_dot c \<Longrightarrow> c \<noteq> nl"
  by (auto simp: digit_or_dot_def nl_def)

lemma not_digit_or_dot_pct: "\<not> digit_or_dot CHR ''%''"
  by (simp add: digit_or_dot_def)

lemma not_digit_or_dot_nl: "\<not> digit_or_dot nl"
  by (simp add: digit_or_dot_def nl_def)

lemma group_more_eq:
  "group_more acc s =
     (if take 1 (dropWhile digit_or_dot s) = ''%'' then Some (acc @ takeWhile digit_or_dot s @ ''%'') else None)"
proof (induction s arbitrary: acc)
  case Nil
  show ?case by (simp add: pct_here_def)
next
  case (Cons c cs)
  show ?case
  proof (cases "digit_or_dot c")
    case True
    then have "pct_here acc (c # cs) = None"
      by (simp add: pct_here_def digit_or_dot_not_pct)
    with True Cons show ?thesis by (simp add: is_class_eq)
  next
    case False
    then show ?thesis by (auto simp: pct_here_def is_class_eq not_digit_or_dot_pct)
  qed
qed

lemma token_here_eq:
  "token_here s =
     (if takeWhile digit_or_dot s \<noteq> [] \<and> take 1 (dropWhile digit_or_dot s) = ''%''
      then Some (takeWhile digit_or_dot s @ ''%'') else None)"
  by (simp add: token_here_def Let_def dropWhile_eq_drop)

lemma group_at_token_here: "group_at s = token_here s"
proof (cases s)
  case Nil
  then show ?thesis by (simp add: group_at_def token_here_eq)
next
  case (Cons c cs)
  then show ?thesis
    by (simp add: group_at_def token_here_eq group_more_eq is_class_eq)
qed

lemma rest_of_line_split:
  "rest_of_line s = takeWhile digit_or_dot s @ rest_of_line (dropWhile digit_or_dot s)"
proof (induction s)
  case Nil
  show ?case by (simp add: rest_of_line_def)
next
  case (Cons c cs)
  then show ?case
    by (auto simp: rest_of_line_def dest: digit_or_dot_not_nl)
qed

lemma takeWhile_rest_of_line:
  "takeWhile digit_or_dot (rest_of_line s) = takeWhile digit_or_dot s"
  by (induction s) (auto simp: rest_of_line_def dest: digit_or_dot_not_nl)

lemma dropWhile_rest_of_line:
  "dropWhile digit_or_dot (rest_of_line s) = rest_of_line (dropWhile digit_or_dot s)"
  by (induction s) (auto simp: rest_of_line_def dest: digit_or_dot_not_nl)

lemma take1_rest_of_line: "take 1 (rest_of_line r) = ''%'' \<longleftrightarrow> take 1 r = ''%''"
  by (cases r) (auto simp: rest_of_line_def nl_def)

lemma token_here_rest_of_line: "token_here (rest_of_line s) = token_here s"
  by (simp only: token_here_eq takeWhile_rest_of_line dropWhile_rest_of_line take1_rest_of_line)

lemma token_here_nl: "token_here (nl # cs) = None"
  by (simp add: token_here_eq not_digit_or_dot_nl)

lemma rest_of_line_Cons: "c \<noteq> nl \<Longrightarrow> rest_of_line (c # cs) = c # rest_of_line cs"
  by (simp add: rest_of_line_def)

lemma token_here_Cons_rest: "c \<noteq> nl \<Longrightarrow> token_here (c # rest_of_line cs) = token_here (c # cs)"
  using token_here_rest_of_line[of "c # cs"] by (simp add: rest_of_line_Cons)

lemma lazy_dot_leftmost: "lazy_dot s = leftmost_token (rest_of_line s)"
proof (induction s)
  case Nil
  show ?case by (simp add: rest_of_line_def group_at_def)
next
  case (Cons c cs)
  show ?case
  proof (cases "c = nl")
    case True
    then show ?thesis
      by (simp add: group_at_token_here token_here_nl rest_of_line_def)
  next
    case False
    then show ?thesis
      using Cons by (simp add: group_at_token_here rest_of_line_Cons token_here_Cons_rest split: option.splits)
  qed
qed

lemma re_search_earliest: "re_search s = earliest_row_percentage s"
proof (induction s)
  case Nil
  show ?case by (simp add: match_at_def)
next
  case (Cons c cs)
  show ?case
  proof (cases "prefix ''TOTAL'' (c # cs) \<and> leftmost_token (rest_of_line (drop 5 (c # cs))) \<noteq> None")
    case True
    then show ?thesis
      by (auto simp: match_at_def lazy_dot_leftmost simp del: drop_Suc_Cons Cons_prefix_Cons)
  next
    case False
    then show ?thesis
      using Cons by (auto simp: match_at_def lazy_dot_leftmost simp del: drop_Suc_Cons Cons_prefix_Cons)
  qed
qed

lemma earliest_of_first:
  "first_total_percentage s \<noteq> None \<Longrightarrow> earliest_row_percentage s = first_total_percentage s"
proof (induction s)
  case Nil
  then show ?case by (simp add: first_total_percentage_def)
next
  case (Cons c cs)
  show ?case
  proof (cases "prefix ''TOTAL'' (c # cs)")
    case True
    with Cons.prems show ?thesis
      by (simp add: first_total_percentage_def del: drop_Suc_Cons Cons_prefix_Cons)
  next
    case False
    with Cons show ?thesis
      by (simp add: first_total_percentage_def del: Cons_prefix_Cons)
  qed
qed

lemma token_here_SomeD:
  assumes "token_here s = Some t"
  shows "\<exists>g post. s = g @ ''%'' @ post \<and> g \<noteq> [] \<and> (\<forall>c \<in> set g. digit_or_dot c) \<and> t = g @ ''%''"
proof -
  let ?g = "takeWhile digit_or_dot s"
  let ?r = "dropWhile digit_or_dot s"
  from assms have g: "?g \<noteq> []" and r: "take 1 ?r = ''%''" and t: "t = ?g @ ''%''"
    by (auto simp: token_here_eq split: if_splits)
  from r obtain post where "?r = ''%'' @ post"
    by (cases ?r) auto
  then have "s = ?g @ ''%'' @ post"
    by (metis takeWhile_dropWhile_id)
  moreover have "\<forall>c \<in> set ?g. digit_or_dot c"
    by (auto dest: set_takeWhileD)
  ultimately show ?thesis using g t by blast
qed

lemma token_here_SomeI:
  assumes "g \<noteq> []" and "\<forall>c \<in> set g. digit_or_dot c"
  shows "token_here (g @ ''%'' @ post) = Some (g @ ''%'')"
proof -
  have "takeWhile digit_or_dot (g @ ''%'' @ post) = g"
    using assms(2) by (simp add: not_digit_or_dot_pct)
  moreover have "dropWhile digit_or_dot (g @ ''%'' @ post) = ''%'' @ post"
    using assms(2) by (simp add: not_digit_or_dot_pct)
  ultimately show ?thesis using assms(1) by (simp add: token_here_eq)
qed

lemma leftmost_token_SomeD:
  "leftmost_token l = Some t \<Longrightarrow>
     \<exists>mid g post. l = mid @ g @ ''%'' @ post \<and> g \<noteq> [] \<and> (\<forall>c \<in> set g. digit_or_dot c) \<and> t = g @ ''%''"
proof (induction l)
  case Nil
  then show ?case by simp
next
  case (Cons c cs)
  show ?case
  proof (cases "token_here (c # cs)")
    case None
    with Cons.prems have "leftmost_token cs = Some t" by simp
    from Cons.IH[OF this] obtain mid g post where
      "cs = mid @ g @ ''%'' @ post" "g \<noteq> []" "\<forall>c \<in> set g. digit_or_dot c" "t = g @ ''%''"
      by blast
    then have "c # cs = (c # mid) @ g @ ''%'' @ post" by simp
    with \<open>g \<noteq> []\<close> \<open>\<forall>c \<in> set g. digit_or_dot c\<close> \<open>t = g @ ''%''\<close> show ?thesis by blast
  next
    case (Some u)
    with Cons.prems have "u = t" by simp
    with Some token_here_SomeD[of "c # cs" t] obtain g post where
      "c # cs = g @ ''%'' @ post" "g \<noteq> []" "\<forall>c \<in> set g. digit_or_dot c" "t = g @ ''%''"
      by blast
    then have "c # cs = [] @ g @ ''%'' @ post" by simp
    with \<open>g \<noteq> []\<close> \<open>\<forall>c \<in> set g. digit_or_dot c\<close> \<open>t = g @ ''%''\<close> show ?thesis by blast
  qed
qed

lemma leftmost_token_append:
  "leftmost_token l \<noteq> None \<Longrightarrow> leftmost_token (mid @ l) \<noteq> None"
  by (induction mid) (auto split: option.splits)

lemma leftmost_token_of_token: "token_here l = Some t \<Longrightarrow> leftmost_token l = Some t"
  by (cases l) (auto simp: token_here_eq)

lemma rest_of_line_append: "nl \<notin> set mid \<Longrightarrow> rest_of_line (mid @ l) = mid @ rest_of_line l"
  by (induction mid) (auto simp: rest_of_line_def)

lemma rest_of_line_no_nl: "nl \<notin> set (rest_of_line r)"
  by (auto simp: rest_of_line_def dest: set_takeWhileD)

lemma rest_of_line_prefix: "\<exists>tl. r = rest_of_line r @ tl"
  by (metis rest_of_line_def takeWhile_dropWhile_id)

lemma earliest_SomeD:
  "earliest_row_percentage s = Some t \<Longrightarrow>
     \<exists>pre r. s = pre @ ''TOTAL'' @ r \<and> leftmost_token (rest_of_line r) = Some t"
proof (induction s)
  case Nil
  then show ?case by simp
next
  case (Cons c cs)
  show ?case
  proof (cases "prefix ''TOTAL'' (c # cs) \<and> leftmost_token (rest_of_line (drop 5 (c # cs))) \<noteq> None")
    case True
    then have p: "prefix ''TOTAL'' (c # cs)" by blast
    from True Cons.prems have "leftmost_token (rest_of_line (drop 5 (c # cs))) = Some t"
      by (simp del: Cons_prefix_Cons drop_Suc_Cons)
    moreover from p have "c # cs = [] @ ''TOTAL'' @ drop 5 (c # cs)"
      by (auto simp: prefix_def)
    ultimately show ?thesis by blast
  next
    case False
    with Cons.prems have "earliest_row_percentage cs = Some t"
      by (auto simp del: Cons_prefix_Cons drop_Suc_Cons split: if_splits)
    from Cons.IH[OF this] obtain pre r where "cs = pre @ ''TOTAL'' @ r" "leftmost_token (rest_of_line r) = Some t"
      by blast
    then have "c # cs = (c # pre) @ ''TOTAL'' @ r" by simp
    with \<open>leftmost_token (rest_of_line r) = Some t\<close> show ?thesis by blast
  qed
qed

lemma earliest_append:
  "leftmost_token (rest_of_line r) \<noteq> None \<Longrightarrow> earliest_row_percentage (pre @ ''TOTAL'' @ r) \<noteq> None"
proof (induction pre)
  case Nil
  then show ?case by simp
next
  case (Cons c pre)
  then show ?case by (auto simp del: Cons_prefix_Cons drop_Suc_Cons)
qed

lemma re_search_Some_row: "re_search s = Some t \<Longrightarrow> has_total_row s"
proof -
  assume "re_search s = Some t"
  then have "earliest_row_percentage s = Some t" by (simp add: re_search_earliest)
  from earliest_SomeD[OF this] obtain pre r where
    s: "s = pre @ ''TOTAL'' @ r" and l: "leftmost_token (rest_of_line r) = Some t" by blast
  from leftmost_token_SomeD[OF l] obtain mid g post where
    m: "rest_of_line r = mid @ g @ ''%'' @ post" and g: "g \<noteq> []" "\<forall>c \<in> set g. digit_or_dot c"
    by blast
  obtain tl where r: "r = rest_of_line r @ tl" using rest_of_line_prefix by blast
  have "nl \<notin> set mid" using rest_of_line_no_nl[of r] m by auto
  moreover have "s = pre @ ''TOTAL'' @ mid @ g @ ''%'' @ (post @ tl)"
    using s r m by (metis append.assoc)
  ultimately show "has_total_row s"
    unfolding has_total_row_def using g by blast
qed

lemma row_re_search: "has_total_row s \<Longrightarrow> re_search s \<noteq> None"
proof -
  assume "has_total_row s"
  then obtain pre mid g post where
    s: "s = pre @ ''TOTAL'' @ mid @ g @ ''%'' @ post" and mid: "nl \<notin> set mid"
    and g: "g \<noteq> []" "\<forall>c \<in> set g. digit_or_dot c"
    unfolding has_total_row_def by blast
  have "token_here (rest_of_line (g @ ''%'' @ post)) = Some (g @ ''%'')"
    using token_here_SomeI[OF g] by (simp add: token_here_rest_of_line)
  then have "leftmost_token (rest_of_line (g @ ''%'' @ post)) \<noteq> None"
    using leftmost_token_of_token by fastforce
  then have "leftmost_token (rest_of_line (mid @ g @ ''%'' @ post)) \<noteq> None"
    using mid by (simp add: rest_of_line_append leftmost_token_append)
  then have "earliest_row_percentage (pre @ ''TOTAL'' @ (mid @ g @ ''%'' @ post)) \<noteq> None"
    by (rule earliest_append)
  then show ?thesis by (simp add: re_search_earliest s)
qed

lemma re_search_None_iff: "re_search s = None \<longleftrightarrow> \<not> has_total_row s"
  using re_search_Some_row[of s] row_re_search[of s] by (cases "re_search s") auto

section \<open>Coverage extraction\<close>

lemma get_total_coverage_run:
  assumes "tool (report_command coverage_dat) [] (fs w) = (0, output, fs')"
  shows "get_total_coverage tool coverage_dat w =
           (case re_search output of
              None \<Rightarrow> Inl (RuntimeError (''Regex failed on output: '' @ output))
            | Some group1 \<Rightarrow> Inr group1,
            (emit (Run (report_command coverage_dat) []) w)\<lparr>fs := fs'\<rparr>)"
  using assms by (simp add: get_total_coverage_def ctx_run_def split: option.splits)

text \<open>
  C5. When the coverage tool has returned its output, the extraction fails with the
  parse error (the \<^verbatim>\<open>RuntimeError\<close> that quotes the output) exactly when the output has no
  line with \<^verbatim>\<open>TOTAL\<close> followed by a percentage token, and returns a percentage exactly when
  it has one: the error is never replaced by a default.
\<close>

theorem get_total_coverage_parse_error_iff:
  assumes "tool (report_command coverage_dat) [] (fs w) = (0, output, fs')"
  shows "(fst (get_total_coverage tool coverage_dat w)
            = Inl (RuntimeError (''Regex failed on output: '' @ output)) \<longleftrightarrow> \<not> has_total_row output)
         \<and> ((\<exists>pct. fst (get_total_coverage tool coverage_dat w) = Inr pct) \<longleftrightarrow> has_total_row output)"
proof (cases "re_search output")
  case None
  then have "\<not> has_total_row output" by (simp add: re_search_None_iff)
  with None show ?thesis
    using get_total_coverage_run[of tool coverage_dat w "output" fs'] assms by simp
next
  case (Some t)
  then have "has_total_row output" by (rule re_search_Some_row)
  with Some show ?thesis
    using get_total_coverage_run[of tool coverage_dat w "output" fs'] assms by simp
qed

theorem get_total_coverage_parse_error_witness:
  "fst (get_total_coverage tool_no_total ''reports/coverage.dat'' w0)
     = Inl (RuntimeError ''Regex failed on output: Name   Stmts   Miss'')
   \<and> \<not> has_total_row ''Name   Stmts   Miss''"
proof -
  have run: "tool_no_total (report_command ''reports/coverage.dat'') [] (fs w0)
               = (0, ''Name   Stmts   Miss'', fs w0)"
    by (simp add: tool_no_total_def)
  have "re_search ''Name   Stmts   Miss'' = None"
    by (simp add: match_at_def)
  then have "fst (get_total_coverage tool_no_total ''reports/coverage.dat'' w0)
               = Inl (RuntimeError ''Regex failed on output: Name   Stmts   Miss'')"
    using get_total_coverage_run[of tool_no_total "''reports/coverage.dat''" w0 "''Name   Stmts   Miss''" "fs w0"] run
    by simp
  with get_total_coverage_parse_error_iff
         [of tool_no_total "''reports/coverage.dat''" w0 "''Name   Stmts   Miss''" "fs w0"] run
  show ?thesis by simp
qed

text \<open>
  C10, as amended. The search returns the leftmost percentage token after, and on the
  line of, the earliest occurrence of \<^verbatim>\<open>TOTAL\<close> that has such a token; whenever the first
  occurrence of \<^verbatim>\<open>TOTAL\<close> has one, that is the token returned.
\<close>

theorem re_search_earliest_row:
  "re_search output = earliest_row_percentage output
   \<and> (first_total_percentage output \<noteq> None \<longrightarrow> re_search output = first_total_percentage output)"
  using earliest_of_first[of "output"] by (simp add: re_search_earliest)

theorem re_search_earliest_row_witness:
  "first_total_percentage ''TOTAL 10 2 80%\<newline>TOTAL 5 1 60%'' \<noteq> None
   \<and> re_search ''TOTAL 10 2 80%\<newline>TOTAL 5 1 60%'' = Some ''80%''"
proof -
  have f: "first_total_percentage ''TOTAL 10 2 80%\<newline>TOTAL 5 1 60%'' = Some ''80%''"
    by (simp add: first_total_percentage_def rest_of_line_def nl_def token_here_eq digit_or_dot_def)
  then have g: "first_total_percentage ''TOTAL 10 2 80%\<newline>TOTAL 5 1 60%'' \<noteq> None"
    by (simp only: option.distinct not_False_eq_True)
  with re_search_earliest_row[of "''TOTAL 10 2 80%\<newline>TOTAL 5 1 60%''"]
  have "re_search ''TOTAL 10 2 80%\<newline>TOTAL 5 1 60%'' = first_total_percentage ''TOTAL 10 2 80%\<newline>TOTAL 5 1 60%''"
    by blast
  then have "re_search ''TOTAL 10 2 80%\<newline>TOTAL 5 1 60%'' = Some ''80%''"
    by (simp only: f)
  with g show ?thesis by blast
qed

text \<open>
  C10 as stated fails: the first occurrence of \<^verbatim>\<open>TOTAL\<close> has no percentage on its line,
  and the search goes on to the second.
\<close>

theorem re_search_first_total_counterexample:
  "re_search ''TOTAL\<newline>TOTAL 5%'' = Some ''5%''
   \<and> first_total_percentage ''TOTAL\<newline>TOTAL 5%'' = None"
  by (simp add: match_at_def group_at_def pct_here_def is_class_def nl_def
        first_total_percentage_def rest_of_line_def)

section \<open>The lint checks\<close>

lemma commands_emit_Run [simp]: "commands (emit (Run cmd env) w) = commands w @ [cmd]"
  by (simp add: commands_def emit_def)

lemma commands_emit_other [simp]:
  "command_of e = [] \<Longrightarrow> commands (emit e w) = commands w"
  by (simp add: commands_def emit_def)

lemma commands_fs_update [simp]: "commands (w\<lparr>fs := f\<rparr>) = commands w"
  by (simp add: commands_def)

lemma trace_emit [simp]: "trace (emit e w) = trace w @ [e]"
  by (simp add: emit_def)

lemma fs_emit [simp]: "fs (emit e w) = fs w"
  by (simp add: emit_def)

lemma ctx_run_eq:
  "tool cmd env (fs w) = (code, out, fs') \<Longrightarrow>
   ctx_run tool cmd env w =
     (if code = 0 then Inr out else Inl (UnexpectedExit cmd code), (emit (Run cmd env) w)\<lparr>fs := fs'\<rparr>)"
  by (simp add: ctx_run_def)

lemma ctx_run_commands: "commands (snd (ctx_run tool cmd env w)) = commands w @ [cmd]"
  by (cases "tool cmd env (fs w)") (simp add: ctx_run_def)

lemma added_append: "trace w' = trace w @ es \<Longrightarrow> added w w' = es"
  by (simp add: added_def)

text \<open>run_pylint in closed form\<close>

lemma run_pylint_eq:
  assumes "tool (pylint_command rc dirs report) [] (fs w) = (code, out, fs')"
  shows "run_pylint tool p dirs report rc w =
           (if code = 0
            then (Inr (),
                  \<lparr>fs = fs',
                   trace = trace w @ [Header (join '', '' dirs) (Some 3) None,
                                      EnsureReportsDir (project.reports_directory p),
                                      Run (pylint_command rc dirs report) [],
                                      CPrint (check_mark @ '' No issues found.'') ''green'']\<rparr>)
            else (Inl (UnexpectedExit (pylint_command rc dirs report) code),
                  \<lparr>fs = fs',
                   trace = trace w @ [Header (join '', '' dirs) (Some 3) None,
                                      EnsureReportsDir (project.reports_directory p),
                                      Run (pylint_command rc dirs report) []]
                           @ (case fs' report of Some content \<Rightarrow> [Print content] | None \<Rightarrow> [])\<rparr>))"
  using assms
  by (simp add: run_pylint_def Let_def ctx_run_def emit_def split: option.splits)

lemma lint_pydocstyle_eq:
  assumes "tool (pydocstyle_command p (joinpath (project.reports_directory p) ''pydocstyle-report.log'')) []
             (fs w) = (code, out, fs')"
  shows "lint_pydocstyle tool p w =
           (if code = 0 then Inr ()
            else Inl (UnexpectedExit
                        (pydocstyle_command p (joinpath (project.reports_directory p) ''pydocstyle-report.log''))
                        code),
            \<lparr>fs = fs',
             trace = trace w @ [Header ''documentation style'' (Some 2) None,
                                EnsureReportsDir (project.reports_directory p),
                                Run (pydocstyle_command p
                                       (joinpath (project.reports_directory p) ''pydocstyle-report.log'')) []]
                     @ (case fs' (joinpath (project.reports_directory p) ''pydocstyle-report.log'') of
                          Some content \<Rightarrow> [FormatMessages content] | None \<Rightarrow> [])\<rparr>)"
  using assms
  by (simp add: lint_pydocstyle_def Let_def ctx_run_def emit_def split: option.splits)

lemma lint_pycodestyle_eq:
  assumes "tool (pycodestyle_command (source_directory p @ '' '' @ project.tests_directory p)
                   (joinpath (project.reports_directory p) ''pycodestyle-report.log'')) []
             (fs w) = (code, out, fs')"
  shows "lint_pycodestyle tool p w =
           (if code = 0 then Inr ()
            else Inl (UnexpectedExit
                        (pycodestyle_command (source_directory p @ '' '' @ project.tests_directory p)
                           (joinpath (project.reports_directory p) ''pycodestyle-report.log''))
                        code),
            \<lparr>fs = fs',
             trace = trace w @ [Header ''code style (PEP8)'' (Some 2) None,
                                EnsureReportsDir (project.reports_directory p),
                                Run (pycodestyle_command (source_directory p @ '' '' @ project.tests_directory p)
                                       (joinpath (project.reports_directory p) ''pycodestyle-report.log'')) []]
                     @ (case fs' (joinpath (project.reports_directory p) ''pycodestyle-report.log'') of
                          Some content \<Rightarrow> [FormatMessages content] | None \<Rightarrow> [])\<rparr>)"
  using assms
  by (simp add: lint_pycodestyle_def Let_def ctx_run_def emit_def split: option.splits)

lemma lint_unfold:
  "lint tool p w =
     (let w1 = emit (Header ''Linting'' None (Some magnifier)) w;
          r1 = lint_pylint tool p w1;
          r2 = lint_pycodestyle tool p (snd r1);
          r3 = lint_pydocstyle tool p (snd r2)
      in if fst r1 \<noteq> Inr () then r1 else if fst r2 \<noteq> Inr () then r2 else r3)"
proof -
  define w1 where "w1 = emit (Header ''Linting'' None (Some magnifier)) w"
  obtain a1 b1 where r1: "lint_pylint tool p w1 = (a1, b1)" by (cases "lint_pylint tool p w1")
  obtain a2 b2 where r2: "lint_pycodestyle tool p b1 = (a2, b2)" by (cases "lint_pycodestyle tool p b1")
  obtain a3 b3 where r3: "lint_pydocstyle tool p b2 = (a3, b3)" by (cases "lint_pydocstyle tool p b2")
  show ?thesis
    unfolding lint_def COMMANDS_def Let_def w1_def[symmetric]
    by (cases a1; cases a2; cases a3) (simp_all add: r1 r2 r3)
qed

lemma run_pylint_commands:
  "commands (snd (run_pylint tool p dirs report rc w)) = commands w @ [pylint_command rc dirs report]"
  by (cases "tool (pylint_command rc dirs report) [] (fs w)")
     (simp add: run_pylint_def Let_def ctx_run_def emit_def commands_def split: option.splits)

lemma lint_pydocstyle_commands:
  "commands (snd (lint_pydocstyle tool p w)) =
     commands w @ [pydocstyle_command p (joinpath (project.reports_directory p) ''pydocstyle-report.log'')]"
  by (cases "tool (pydocstyle_command p (joinpath (project.reports_directory p) ''pydocstyle-report.log'')) [] (fs w)")
     (simp add: lint_pydocstyle_def Let_def ctx_run_def emit_def commands_def split: option.splits)

lemma lint_pycodestyle_commands:
  "commands (snd (lint_pycodestyle tool p w)) =
     commands w @ [pycodestyle_command (source_directory p @ '' '' @ project.tests_directory p)
                     (joinpath (project.reports_directory p) ''pycodestyle-report.log'')]"
  by (cases "tool (pycodestyle_command (source_directory p @ '' '' @ project.tests_directory p)
                     (joinpath (project.reports_directory p) ''pycodestyle-report.log'')) [] (fs w)")
     (simp add: lint_pycodestyle_def Let_def ctx_run_def emit_def commands_def split: option.splits)

lemma lint_pylint_unfold:
  "lint_pylint tool p w =
     (let r1 = run_pylint tool p [source_directory p]
                 (joinpath (project.reports_directory p) ''pylint-report.log'')
                 (joinpath (root_directory p) ''.pylintrc'') (emit (Header ''pylint'' (Some 2) None) w)
      in if fst r1 \<noteq> Inr () then r1
         else run_pylint tool p [project.tests_directory p]
                (joinpath (project.reports_directory p) ''pylint-report-tests.log'')
                (joinpath (project.tests_directory p) ''.pylintrc'') (snd r1))"
proof -
  obtain a b where r: "run_pylint tool p [source_directory p]
                 (joinpath (project.reports_directory p) ''pylint-report.log'')
                 (joinpath (root_directory p) ''.pylintrc'') (emit (Header ''pylint'' (Some 2) None) w) = (a, b)"
    by (cases "run_pylint tool p [source_directory p]
                 (joinpath (project.reports_directory p) ''pylint-report.log'')
                 (joinpath (root_directory p) ''.pylintrc'') (emit (Header ''pylint'' (Some 2) None) w)")
  show ?thesis
    by (cases a) (simp_all add: lint_pylint_def Let_def r)
qed

lemma lint_pylint_commands:
  "commands (snd (lint_pylint tool p w)) =
     commands w @
       (if fst (run_pylint tool p [source_directory p]
                 (joinpath (project.reports_directory p) ''pylint-report.log'')
                 (joinpath (root_directory p) ''.pylintrc'') (emit (Header ''pylint'' (Some 2) None) w)) \<noteq> Inr ()
        then [pylint_command (joinpath (root_directory p) ''.pylintrc'') [source_directory p]
                (joinpath (project.reports_directory p) ''pylint-report.log'')]
        else [pylint_command (joinpath (root_directory p) ''.pylintrc'') [source_directory p]
                (joinpath (project.reports_directory p) ''pylint-report.log''),
              pylint_command (joinpath (project.tests_directory p) ''.pylintrc'') [project.tests_directory p]
                (joinpath (project.reports_directory p) ''pylint-report-tests.log'')])"
  by (simp add: lint_pylint_unfold Let_def run_pylint_commands)

lemma lint_pylint_ok_first:
  "fst (lint_pylint tool p w) = Inr () \<Longrightarrow>
   fst (run_pylint tool p [source_directory p]
                 (joinpath (project.reports_directory p) ''pylint-report.log'')
                 (joinpath (root_directory p) ''.pylintrc'') (emit (Header ''pylint'' (Some 2) None) w)) = Inr ()"
  by (auto simp: lint_pylint_unfold Let_def split: if_splits)

lemma lint_commands:
  "(\<exists>k. 0 < k \<and> commands (snd (lint tool p w)) = commands w @ take k (lint_sequence p))
   \<and> (fst (lint tool p w) = Inr () \<longrightarrow> commands (snd (lint tool p w)) = commands w @ lint_sequence p)"
proof -
  define w1 where "w1 = emit (Header ''Linting'' None (Some magnifier)) w"
  define r1 where "r1 = lint_pylint tool p w1"
  define r2 where "r2 = lint_pycodestyle tool p (snd r1)"
  define r3 where "r3 = lint_pydocstyle tool p (snd r2)"
  define q where "q = run_pylint tool p [source_directory p]
                 (joinpath (project.reports_directory p) ''pylint-report.log'')
                 (joinpath (root_directory p) ''.pylintrc'') (emit (Header ''pylint'' (Some 2) None) w1)"
  have l: "lint tool p w = (if fst r1 \<noteq> Inr () then r1 else if fst r2 \<noteq> Inr () then r2 else r3)"
    by (simp add: lint_unfold Let_def w1_def r1_def r2_def r3_def)
  have cw1: "commands w1 = commands w" by (simp add: w1_def)
  have c1: "commands (snd r1) = commands w @ (if fst q \<noteq> Inr () then take 1 (lint_sequence p) else take 2 (lint_sequence p))"
    unfolding r1_def q_def by (simp add: lint_pylint_commands cw1 lint_sequence_def)
  have q1: "fst r1 = Inr () \<Longrightarrow> fst q = Inr ()"
    unfolding r1_def q_def by (rule lint_pylint_ok_first)
  have c2: "fst r1 = Inr () \<Longrightarrow> commands (snd r2) = commands w @ take 3 (lint_sequence p)"
    unfolding r2_def using c1 q1 by (simp add: lint_pycodestyle_commands lint_sequence_def)
  have c3: "fst r1 = Inr () \<Longrightarrow> commands (snd r3) = commands w @ lint_sequence p"
    unfolding r3_def using c2 by (simp add: lint_pydocstyle_commands lint_sequence_def)
  have c3': "fst r1 = Inr () \<Longrightarrow> commands (snd r3) = commands w @ take 4 (lint_sequence p)"
    using c3 by (simp add: lint_sequence_def)
  show ?thesis
  proof (cases "fst r1 = Inr ()")
    case False
    then have "commands (snd (lint tool p w)) = commands w @ take (if fst q \<noteq> Inr () then 1 else 2) (lint_sequence p)"
      using l c1 by simp
    moreover have "0 < (if fst q \<noteq> Inr () then 1 else 2::nat)" by simp
    ultimately show ?thesis using False l by (metis (full_types))
  next
    case r1ok: True
    show ?thesis
    proof (cases "fst r2 = Inr ()")
      case False
      then have "commands (snd (lint tool p w)) = commands w @ take 3 (lint_sequence p)"
        using l c2 r1ok by simp
      moreover have "fst (lint tool p w) \<noteq> Inr ()" using l r1ok False by simp
      ultimately show ?thesis by (metis zero_less_numeral)
    next
      case True
      then have e: "commands (snd (lint tool p w)) = commands w @ lint_sequence p"
        using l c3 r1ok by simp
      moreover have "commands (snd (lint tool p w)) = commands w @ take 4 (lint_sequence p)"
        using l c3' r1ok True by simp
      ultimately show ?thesis by (metis zero_less_numeral)
    qed
  qed
qed

lemma joinpath_simps [simp]:
  "joinpath d ''pylint-report.log'' = d @ ''/pylint-report.log''"
  "joinpath d ''pylint-report-tests.log'' = d @ ''/pylint-report-tests.log''"
  "joinpath d ''pycodestyle-report.log'' = d @ ''/pycodestyle-report.log''"
  "joinpath d ''pydocstyle-report.log'' = d @ ''/pydocstyle-report.log''"
  "joinpath d ''.pylintrc'' = d @ ''/.pylintrc''"
  "joinpath d ''coverage.dat'' = d @ ''/coverage.dat''"
  "joinpath d ''coverage-report/'' = d @ ''/coverage-report''"
  "joinpath d ''coverage-report'' = d @ ''/coverage-report''"
  "joinpath d ''index.html'' = d @ ''/index.html''"
  by (simp_all add: joinpath_def rstrip_slash_def)

lemma w0_simps [simp]: "fs w0 = Map.empty" "trace w0 = []" "commands w0 = []"
  by (simp_all add: w0_def commands_def)

lemma p0_simps [simp]:
  "source_directory p0 = ''/proj/src''" "project.tests_directory p0 = ''/proj/tests''"
  "project.reports_directory p0 = ''/proj/reports''" "root_directory p0 = ''/proj''"
  by (simp_all add: p0_def)

lemma tool_ok_run [simp]: "ctx_run tool_ok cmd env w = (Inr [], (emit (Run cmd env) w)\<lparr>fs := fs w\<rparr>)"
  by (simp add: ctx_run_def tool_ok_def)

lemma lint_pylint_style_fails:
  "fst (lint_pylint tool_style_fails p0 w) = Inr ()"
  "commands (snd (lint_pylint tool_style_fails p0 w)) = commands w @
      [''pylint --rcfile /proj/.pylintrc /proj/src > /proj/reports/pylint-report.log'',
       ''pylint --rcfile /proj/tests/.pylintrc /proj/tests > /proj/reports/pylint-report-tests.log'']"
  by (simp_all add: lint_pylint_def run_pylint_def ctx_run_def tool_style_fails_def pylint_command_def Let_def)

lemma lint_pycodestyle_style_fails:
  "fst (lint_pycodestyle tool_style_fails p0 w)
     = Inl (UnexpectedExit (pycodestyle_command ''/proj/src /proj/tests'' ''/proj/reports/pycodestyle-report.log'') 1)"
  "commands (snd (lint_pycodestyle tool_style_fails p0 w)) = commands w @
      [pycodestyle_command ''/proj/src /proj/tests'' ''/proj/reports/pycodestyle-report.log'']"
  by (simp_all add: lint_pycodestyle_def ctx_run_def tool_style_fails_def pycodestyle_command_def Let_def)

lemma lint_tool_ok: "fst (lint tool_ok p0 w0) = Inr ()"
  by (simp add: lint_def COMMANDS_def lint_pylint_def run_pylint_def lint_pycodestyle_def lint_pydocstyle_def Let_def)

text \<open>
  C1, as amended. For a static-analysis run (\<^verbatim>\<open>run_pylint\<close>): exit status zero gives a
  normal return, no dump of the report and the success indicator; a non-zero status gives
  the failure, after the report file, if it exists, was printed. For the docstring and
  style checks the check hands the report file, if it exists, to the message formatter
  after the tool returns, in the same way for every exit status, and prints no success
  indicator of its own; a non-zero status is the failure that propagates, after the
  formatter was called. The events a check adds to the trace are given in full.
\<close>

theorem check_outcomes:
  "(tool (''pylint --rcfile '' @ rc @ '' '' @ join '' '' dirs @ '' > '' @ report) [] (fs w) = (code_pylint, out_pylint, fs_pylint) \<longrightarrow>
      fst (run_pylint tool p dirs report rc w)
        = (if code_pylint = 0 then Inr ()
           else Inl (UnexpectedExit (''pylint --rcfile '' @ rc @ '' '' @ join '' '' dirs @ '' > '' @ report) code_pylint))
      \<and> added w (snd (run_pylint tool p dirs report rc w))
          = [Header (join '', '' dirs) (Some 3) None,
             EnsureReportsDir (project.reports_directory p),
             Run (''pylint --rcfile '' @ rc @ '' '' @ join '' '' dirs @ '' > '' @ report) []]
            @ (if code_pylint = 0 then [CPrint (check_mark @ '' No issues found.'') ''green'']
               else (case fs_pylint report of Some content \<Rightarrow> [Print content] | None \<Rightarrow> [])))
   \<and> (tool (''pydocstyle '' @ source_directory p @ '' > '' @ project.reports_directory p @ ''/pydocstyle-report.log'')
         [] (fs w) = (code_doc, out_doc, fs_doc) \<longrightarrow>
      fst (lint_pydocstyle tool p w)
        = (if code_doc = 0 then Inr ()
           else Inl (UnexpectedExit
                       (''pydocstyle '' @ source_directory p @ '' > '' @ project.reports_directory p
                        @ ''/pydocstyle-report.log'') code_doc))
      \<and> added w (snd (lint_pydocstyle tool p w))
          = [Header ''documentation style'' (Some 2) None,
             EnsureReportsDir (project.reports_directory p),
             Run (''pydocstyle '' @ source_directory p @ '' > '' @ project.reports_directory p
                  @ ''/pydocstyle-report.log'') []]
            @ (case fs_doc (project.reports_directory p @ ''/pydocstyle-report.log'') of
                 Some content \<Rightarrow> [FormatMessages content] | None \<Rightarrow> []))
   \<and> (tool (''pycodestyle --ignore=E501,W503,E231,E203,E402 ''
              @ ''--exclude=.svn,CVS,.bzr,.hg,.git,__pycache__,.tox,*_config_parser.py ''
              @ source_directory p @ '' '' @ project.tests_directory p @ '' > ''
              @ project.reports_directory p @ ''/pycodestyle-report.log'') [] (fs w)
         = (code_style, out_style, fs_style) \<longrightarrow>
      fst (lint_pycodestyle tool p w)
        = (if code_style = 0 then Inr ()
           else Inl (UnexpectedExit
                       (''pycodestyle --ignore=E501,W503,E231,E203,E402 ''
                        @ ''--exclude=.svn,CVS,.bzr,.hg,.git,__pycache__,.tox,*_config_parser.py ''
                        @ source_directory p @ '' '' @ project.tests_directory p @ '' > ''
                        @ project.reports_directory p @ ''/pycodestyle-report.log'') code_style))
      \<and> added w (snd (lint_pycodestyle tool p w))
          = [Header ''code style (PEP8)'' (Some 2) None,
             EnsureReportsDir (project.reports_directory p),
             Run (''pycodestyle --ignore=E501,W503,E231,E203,E402 ''
                  @ ''--exclude=.svn,CVS,.bzr,.hg,.git,__pycache__,.tox,*_config_parser.py ''
                  @ source_directory p @ '' '' @ project.tests_directory p @ '' > ''
                  @ project.reports_directory p @ ''/pycodestyle-report.log'') []]
            @ (case fs_style (project.reports_directory p @ ''/pycodestyle-report.log'') of
                 Some content \<Rightarrow> [FormatMessages content] | None \<Rightarrow> []))"
proof (intro conjI impI)
  assume a: "tool (''pylint --rcfile '' @ rc @ '' '' @ join '' '' dirs @ '' > '' @ report) [] (fs w) = (code_pylint, out_pylint, fs_pylint)"
  then have a': "tool (pylint_command rc dirs report) [] (fs w) = (code_pylint, out_pylint, fs_pylint)"
    by (simp add: pylint_command_def)
  note e = run_pylint_eq[where tool=tool and rc=rc and dirs=dirs and report=report and w=w
                            and code=code_pylint and out=out_pylint and fs'=fs_pylint and p=p, OF a']
  show "fst (run_pylint tool p dirs report rc w)
        = (if code_pylint = 0 then Inr ()
           else Inl (UnexpectedExit (''pylint --rcfile '' @ rc @ '' '' @ join '' '' dirs @ '' > '' @ report) code_pylint))"
    using e by (simp add: pylint_command_def)
  show "added w (snd (run_pylint tool p dirs report rc w))
          = [Header (join '', '' dirs) (Some 3) None,
             EnsureReportsDir (project.reports_directory p),
             Run (''pylint --rcfile '' @ rc @ '' '' @ join '' '' dirs @ '' > '' @ report) []]
            @ (if code_pylint = 0 then [CPrint (check_mark @ '' No issues found.'') ''green'']
               else (case fs_pylint report of Some content \<Rightarrow> [Print content] | None \<Rightarrow> []))"
    using e by (simp add: pylint_command_def added_def)
next
  assume a: "tool (''pydocstyle '' @ source_directory p @ '' > '' @ project.reports_directory p @ ''/pydocstyle-report.log'')
         [] (fs w) = (code_doc, out_doc, fs_doc)"
  then have a': "tool (pydocstyle_command p (joinpath (project.reports_directory p) ''pydocstyle-report.log'')) []
             (fs w) = (code_doc, out_doc, fs_doc)"
    by (simp add: pydocstyle_command_def)
  note e = lint_pydocstyle_eq[of tool p w code_doc out_doc fs_doc, OF a']
  show "fst (lint_pydocstyle tool p w)
        = (if code_doc = 0 then Inr ()
           else Inl (UnexpectedExit
                       (''pydocstyle '' @ source_directory p @ '' > '' @ project.reports_directory p
                        @ ''/pydocstyle-report.log'') code_doc))"
    using e by (simp add: pydocstyle_command_def)
  show "added w (snd (lint_pydocstyle tool p w))
          = [Header ''documentation style'' (Some 2) None,
             EnsureReportsDir (project.reports_directory p),
             Run (''pydocstyle '' @ source_directory p @ '' > '' @ project.reports_directory p
                  @ ''/pydocstyle-report.log'') []]
            @ (case fs_doc (project.reports_directory p @ ''/pydocstyle-report.log'') of
                 Some content \<Rightarrow> [FormatMessages content] | None \<Rightarrow> [])"
    using e by (simp add: pydocstyle_command_def added_def)
next
  assume a: "tool (''pycodestyle --ignore=E501,W503,E231,E203,E402 ''
              @ ''--exclude=.svn,CVS,.bzr,.hg,.git,__pycache__,.tox,*_config_parser.py ''
              @ source_directory p @ '' '' @ project.tests_directory p @ '' > ''
              @ project.reports_directory p @ ''/pycodestyle-report.log'') [] (fs w)
         = (code_style, out_style, fs_style)"
  then have a': "tool (pycodestyle_command (source_directory p @ '' '' @ project.tests_directory p)
                   (joinpath (project.reports_directory p) ''pycodestyle-report.log'')) []
             (fs w) = (code_style, out_style, fs_style)"
    by (simp add: pycodestyle_command_def)
  note e = lint_pycodestyle_eq[of tool p w code_style out_style fs_style, OF a']
  show "fst (lint_pycodestyle tool p w)
        = (if code_style = 0 then Inr ()
           else Inl (UnexpectedExit
                       (''pycodestyle --ignore=E501,W503,E231,E203,E402 ''
                        @ ''--exclude=.svn,CVS,.bzr,.hg,.git,__pycache__,.tox,*_config_parser.py ''
                        @ source_directory p @ '' '' @ project.tests_directory p @ '' > ''
                        @ project.reports_directory p @ ''/pycodestyle-report.log'') code_style))"
    using e by (simp add: pycodestyle_command_def)
  show "added w (snd (lint_pycodestyle tool p w))
          = [Header ''code style (PEP8)'' (Some 2) None,
             EnsureReportsDir (project.reports_directory p),
             Run (''pycodestyle --ignore=E501,W503,E231,E203,E402 ''
                  @ ''--exclude=.svn,CVS,.bzr,.hg,.git,__pycache__,.tox,*_config_parser.py ''
                  @ source_directory p @ '' '' @ project.tests_directory p @ '' > ''
                  @ project.reports_directory p @ ''/pycodestyle-report.log'') []]
            @ (case fs_style (project.reports_directory p @ ''/pycodestyle-report.log'') of
                 Some content \<Rightarrow> [FormatMessages content] | None \<Rightarrow> [])"
    using e by (simp add: pycodestyle_command_def added_def)
qed

theorem check_outcomes_witness:
  "fst (run_pylint tool_findings p0 [''/proj/src''] ''/proj/reports/pylint-report.log'' ''/proj/.pylintrc'' w0)
     = Inl (UnexpectedExit ''pylint --rcfile /proj/.pylintrc /proj/src > /proj/reports/pylint-report.log'' 4)
   \<and> added w0 (snd (run_pylint tool_findings p0 [''/proj/src''] ''/proj/reports/pylint-report.log''
                       ''/proj/.pylintrc'' w0))
     = [Header ''/proj/src'' (Some 3) None, EnsureReportsDir ''/proj/reports'',
        Run ''pylint --rcfile /proj/.pylintrc /proj/src > /proj/reports/pylint-report.log'' [],
        Print ''a.py:1:0: C0114'']
   \<and> fst (run_pylint tool_ok p0 [''/proj/src''] ''/proj/reports/pylint-report.log'' ''/proj/.pylintrc'' w0) = Inr ()
   \<and> added w0 (snd (run_pylint tool_ok p0 [''/proj/src''] ''/proj/reports/pylint-report.log''
                       ''/proj/.pylintrc'' w0))
     = [Header ''/proj/src'' (Some 3) None, EnsureReportsDir ''/proj/reports'',
        Run ''pylint --rcfile /proj/.pylintrc /proj/src > /proj/reports/pylint-report.log'' [],
        CPrint (check_mark @ '' No issues found.'') ''green'']
   \<and> fst (lint_pydocstyle tool_findings p0 w0) = Inr ()
   \<and> added w0 (snd (lint_pydocstyle tool_findings p0 w0))
     = [Header ''documentation style'' (Some 2) None, EnsureReportsDir ''/proj/reports'',
        Run ''pydocstyle /proj/src > /proj/reports/pydocstyle-report.log'' [], FormatMessages []]
   \<and> fst (lint_pycodestyle tool_findings p0 w0)
     = Inl (UnexpectedExit
              (''pycodestyle --ignore=E501,W503,E231,E203,E402 ''
               @ ''--exclude=.svn,CVS,.bzr,.hg,.git,__pycache__,.tox,*_config_parser.py ''
               @ ''/proj/src /proj/tests > /proj/reports/pycodestyle-report.log'') 1)
   \<and> added w0 (snd (lint_pycodestyle tool_findings p0 w0))
     = [Header ''code style (PEP8)'' (Some 2) None, EnsureReportsDir ''/proj/reports'',
        Run (''pycodestyle --ignore=E501,W503,E231,E203,E402 ''
             @ ''--exclude=.svn,CVS,.bzr,.hg,.git,__pycache__,.tox,*_config_parser.py ''
             @ ''/proj/src /proj/tests > /proj/reports/pycodestyle-report.log'') [],
        FormatMessages ''a.py:3:1: E302'']"
proof -
  have h1: "tool_findings (''pylint --rcfile '' @ ''/proj/.pylintrc'' @ '' '' @ join '' '' [''/proj/src''] @ '' > ''
                           @ ''/proj/reports/pylint-report.log'') []
              (fs w0) = (4, [], [''/proj/reports/pylint-report.log'' \<mapsto> ''a.py:1:0: C0114''])"
    by (simp add: tool_findings_def)
  have h1': "tool_ok (''pylint --rcfile '' @ ''/proj/.pylintrc'' @ '' '' @ join '' '' [''/proj/src''] @ '' > ''
                           @ ''/proj/reports/pylint-report.log'') []
              (fs w0) = (0, [], Map.empty)"
    by (simp add: tool_ok_def)
  have h2: "tool_findings (''pydocstyle '' @ source_directory p0 @ '' > '' @ project.reports_directory p0
                           @ ''/pydocstyle-report.log'') []
              (fs w0) = (0, [], [''/proj/reports/pydocstyle-report.log'' \<mapsto> []])"
    by (simp add: tool_findings_def)
  have h3: "tool_findings (''pycodestyle --ignore=E501,W503,E231,E203,E402 ''
              @ ''--exclude=.svn,CVS,.bzr,.hg,.git,__pycache__,.tox,*_config_parser.py ''
              @ source_directory p0 @ '' '' @ project.tests_directory p0 @ '' > ''
              @ project.reports_directory p0 @ ''/pycodestyle-report.log'') []
              (fs w0) = (1, [], [''/proj/reports/pycodestyle-report.log'' \<mapsto> ''a.py:3:1: E302''])"
    by (simp add: tool_findings_def)
  note t = check_outcomes[where tool = tool_findings and rc = "''/proj/.pylintrc''" and dirs = "[''/proj/src'']"
         and report = "''/proj/reports/pylint-report.log''" and w = w0 and code_pylint = 4 and out_pylint = "[]"
         and fs_pylint = "[''/proj/reports/pylint-report.log'' \<mapsto> ''a.py:1:0: C0114'']" and p = p0
         and code_doc = 0 and out_doc = "[]" and fs_doc = "[''/proj/reports/pydocstyle-report.log'' \<mapsto> []]"
         and code_style = 1 and out_style = "[]" and fs_style = "[''/proj/reports/pycodestyle-report.log'' \<mapsto> ''a.py:3:1: E302'']"]
  note t' = check_outcomes[where tool = tool_ok and rc = "''/proj/.pylintrc''" and dirs = "[''/proj/src'']"
         and report = "''/proj/reports/pylint-report.log''" and w = w0 and code_pylint = 0 and out_pylint = "[]"
         and fs_pylint = "Map.empty" and p = p0]
  from t h1 h2 h3 t' h1' show ?thesis by simp
qed

text \<open>
  C1 as stated fails for the docstring check. With the same report left by the tool the
  check does exactly the same on exit status 0 and on exit status 1: the formatter is
  called with the report, and the check itself prints nothing else. The claim asks for no
  dump and a success indicator in the first run and for the report's contents in the
  second; whatever the formatter prints for a report, it prints it in both. On a clean
  run, with an empty report, the check's only output is the formatter's for the empty text.
\<close>

theorem docstring_check_same_on_success_and_failure:
  "fst (lint_pydocstyle (tool_docstyle_exit 0) p0 w0) = Inr ()
   \<and> fst (lint_pydocstyle (tool_docstyle_exit 1) p0 w0)
       = Inl (UnexpectedExit ''pydocstyle /proj/src > /proj/reports/pydocstyle-report.log'' 1)
   \<and> added w0 (snd (lint_pydocstyle (tool_docstyle_exit 0) p0 w0))
       = [Header ''documentation style'' (Some 2) None, EnsureReportsDir ''/proj/reports'',
          Run ''pydocstyle /proj/src > /proj/reports/pydocstyle-report.log'' [],
          FormatMessages ''a.py:1 at module level: D100'']
   \<and> added w0 (snd (lint_pydocstyle (tool_docstyle_exit 1) p0 w0))
       = added w0 (snd (lint_pydocstyle (tool_docstyle_exit 0) p0 w0))
   \<and> added w0 (snd (lint_pydocstyle tool_findings p0 w0))
       = [Header ''documentation style'' (Some 2) None, EnsureReportsDir ''/proj/reports'',
          Run ''pydocstyle /proj/src > /proj/reports/pydocstyle-report.log'' [],
          FormatMessages []]"
  by (simp add: lint_pydocstyle_def tool_docstyle_exit_def tool_findings_def pydocstyle_command_def ctx_run_def
        added_def Let_def)

text \<open>
  C2, as amended. The lint pipeline stops at the first failing check: its outcome is that
  check's failure and the world that check left, so no later check is started; it returns
  normally only when the static-analysis, style and docstring checks all returned normally.
\<close>

theorem lint_fail_fast:
  "lint tool p w =
     (let w1 = emit (Header ''Linting'' None (Some magnifier)) w;
          r1 = lint_pylint tool p w1;
          r2 = lint_pycodestyle tool p (snd r1);
          r3 = lint_pydocstyle tool p (snd r2)
      in if fst r1 \<noteq> Inr () then r1 else if fst r2 \<noteq> Inr () then r2 else r3)"
  by (rule lint_unfold)

theorem lint_fail_fast_witness:
  "fst (lint tool_style_fails p0 w0)
     = Inl (UnexpectedExit (pycodestyle_command ''/proj/src /proj/tests'' ''/proj/reports/pycodestyle-report.log'') 1)
   \<and> commands (snd (lint tool_style_fails p0 w0))
     = [''pylint --rcfile /proj/.pylintrc /proj/src > /proj/reports/pylint-report.log'',
        ''pylint --rcfile /proj/tests/.pylintrc /proj/tests > /proj/reports/pylint-report-tests.log'',
        pycodestyle_command ''/proj/src /proj/tests'' ''/proj/reports/pycodestyle-report.log'']"
  using lint_fail_fast[of tool_style_fails p0 w0]
  by (simp add: Let_def lint_pylint_style_fails lint_pycodestyle_style_fails)

text \<open>
  C2 as stated fails: when the first static-analysis run fails, neither the style nor the
  docstring check is started.
\<close>

theorem lint_independent_counterexample:
  "fst (lint tool_findings p0 w0)
     = Inl (UnexpectedExit ''pylint --rcfile /proj/.pylintrc /proj/src > /proj/reports/pylint-report.log'' 4)
   \<and> commands (snd (lint tool_findings p0 w0))
     = [''pylint --rcfile /proj/.pylintrc /proj/src > /proj/reports/pylint-report.log'']"
  by (simp add: lint_def COMMANDS_def lint_pylint_def run_pylint_def ctx_run_def tool_findings_def
        pylint_command_def Let_def)

text \<open>
  C3, as amended. The lint pipeline starts its commands in the order static analysis of
  the source tree, static analysis of the tests tree (each with its own rule file), style
  check, docstring check: what it has started is always a non-empty initial segment of
  that sequence, and the whole sequence when the pipeline returns normally.
\<close>

theorem lint_order:
  "(\<exists>k. 0 < k \<and> commands (snd (lint tool p w)) = commands w @ take k (lint_sequence p))
   \<and> (fst (lint tool p w) = Inr () \<longrightarrow> commands (snd (lint tool p w)) = commands w @ lint_sequence p)"
  by (rule lint_commands)

theorem lint_order_witness:
  "fst (lint tool_ok p0 w0) = Inr ()
   \<and> commands (snd (lint tool_ok p0 w0))
     = [''pylint --rcfile /proj/.pylintrc /proj/src > /proj/reports/pylint-report.log'',
        ''pylint --rcfile /proj/tests/.pylintrc /proj/tests > /proj/reports/pylint-report-tests.log'',
        pycodestyle_command ''/proj/src /proj/tests'' ''/proj/reports/pycodestyle-report.log'',
        ''pydocstyle /proj/src > /proj/reports/pydocstyle-report.log'']"
  using lint_order[of tool_ok p0 w0] lint_tool_ok
  by (simp add: lint_sequence_def pylint_command_def pydocstyle_command_def)

text \<open>
  C3 as stated fails: the first command started is the static analysis, not the style check.
\<close>

theorem lint_order_counterexample:
  "fst (lint tool_ok p0 w0) = Inr ()
   \<and> take 6 (hd (commands (snd (lint tool_ok p0 w0)))) = ''pylint''
   \<and> take 11 (hd (spec_lint_order p0)) = ''pycodestyle''
   \<and> commands (snd (lint tool_ok p0 w0)) \<noteq> spec_lint_order p0"
  by (simp add: lint_def COMMANDS_def lint_pylint_def run_pylint_def lint_pycodestyle_def lint_pydocstyle_def
        Let_def spec_lint_order_def pylint_command_def pycodestyle_command_def pydocstyle_command_def)

section \<open>The coverage aggregator\<close>

lemma rstrip_slash_dat [simp]: "rstrip_slash (x @ ''.dat'') = x @ ''.dat''"
  by (simp add: rstrip_slash_def)

lemma rstrip_slash_xml [simp]: "rstrip_slash (x @ ''.xml'') = x @ ''.xml''"
  by (simp add: rstrip_slash_def)

lemma category_dat_eq:
  "category_dat tb t = toolbox.reports_directory tb @ ''/coverage-'' @ t @ ''.dat''"
  using rstrip_slash_dat[of "''coverage-'' @ t"] by (simp add: category_dat_def joinpath_def)

lemma path_name_suffix: "p = take (length p - length (path_name p)) p @ path_name p"
proof -
  let ?P = "\<lambda>c. c \<noteq> CHR ''/''"
  have "rev p = takeWhile ?P (rev p) @ dropWhile ?P (rev p)" by simp
  then have "p = rev (dropWhile ?P (rev p)) @ path_name p"
    unfolding path_name_def by (metis rev_append rev_rev_ident)
  then show ?thesis
    by (metis append_eq_conv_conj length_append add_diff_cancel_right')
qed

lemma path_name_dat: "\<exists>n. path_name (x @ ''.dat'') = n @ ''.dat''"
  by (simp add: path_name_def)

lemma str_replace_length:
  "length s \<le> length (str_replace ''.dat'' ''-copy.dat'' s)"
proof (induction s rule: length_induct)
  case (1 s)
  show ?case
  proof (cases s)
    case Nil
    then show ?thesis by simp
  next
    case (Cons c cs)
    show ?thesis
    proof (cases "prefix ''.dat'' (c # cs)")
      case True
      have "length (drop 3 cs) < length s" using Cons by simp
      with 1 have "length (drop 3 cs) \<le> length (str_replace ''.dat'' ''-copy.dat'' (drop 3 cs))" by blast
      moreover have "str_replace ''.dat'' ''-copy.dat'' (c # cs) = ''-copy.dat'' @ str_replace ''.dat'' ''-copy.dat'' (drop 3 cs)"
        using True by (simp del: Cons_prefix_Cons add: eval_nat_numeral)
      ultimately show ?thesis using Cons by simp
    next
      case False
      have "length cs < length s" using Cons by simp
      with 1 have "length cs \<le> length (str_replace ''.dat'' ''-copy.dat'' cs)" by blast
      moreover have "str_replace ''.dat'' ''-copy.dat'' (c # cs) = c # str_replace ''.dat'' ''-copy.dat'' cs"
        using False by (simp del: Cons_prefix_Cons)
      ultimately show ?thesis using Cons by simp
    qed
  qed
qed

lemma str_replace_longer:
  "length (a @ ''.dat'' @ b) < length (str_replace ''.dat'' ''-copy.dat'' (a @ ''.dat'' @ b))"
proof (induction a)
  case Nil
  have "str_replace ''.dat'' ''-copy.dat'' (''.dat'' @ b) = ''-copy.dat'' @ str_replace ''.dat'' ''-copy.dat'' b"
    by simp
  then show ?case using str_replace_length[of b] by simp
next
  case (Cons c a)
  show ?case
  proof (cases "prefix ''.dat'' ((c # a) @ ''.dat'' @ b)")
    case True
    have "str_replace ''.dat'' ''-copy.dat'' ((c # a) @ ''.dat'' @ b)
            = ''-copy.dat'' @ str_replace ''.dat'' ''-copy.dat'' (drop 3 (a @ ''.dat'' @ b))"
      using True by (simp del: Cons_prefix_Cons add: eval_nat_numeral)
    then show ?thesis
      using str_replace_length[of "drop 3 (a @ ''.dat'' @ b)"] by simp
  next
    case False
    have "str_replace ''.dat'' ''-copy.dat'' ((c # a) @ ''.dat'' @ b)
            = c # str_replace ''.dat'' ''-copy.dat'' (a @ ''.dat'' @ b)"
      using False by (simp del: Cons_prefix_Cons)
    then show ?thesis using Cons by simp
  qed
qed

lemma temp_copy_differs: "temp_copy_of (x @ ''.dat'') \<noteq> x @ ''.dat''"
proof
  let ?d = "x @ ''.dat''"
  assume e: "temp_copy_of ?d = ?d"
  obtain n where n: "path_name ?d = n @ ''.dat''" using path_name_dat by blast
  have "?d = take (length ?d - length (path_name ?d)) ?d @ path_name ?d"
    by (rule path_name_suffix)
  with e have "str_replace ''.dat'' ''-copy.dat'' (path_name ?d) = path_name ?d"
    unfolding temp_copy_of_def with_name_def by (metis same_append_eq)
  then have "length (str_replace ''.dat'' ''-copy.dat'' (n @ ''.dat'' @ [])) = length (n @ ''.dat'' @ [])"
    using n by simp
  with str_replace_longer[of n "[]"] show False by simp
qed

lemma temp_copy_category_differs: "temp_copy_of (category_dat tb t) \<noteq> category_dat tb t"
  using temp_copy_differs[of "toolbox.reports_directory tb @ ''/coverage-'' @ t"]
  by (simp add: category_dat_eq)

lemma get_total_coverage_commands:
  "commands (snd (get_total_coverage tool d w)) = commands w @ [report_command d]"
  by (cases "tool (report_command d) [] (fs w)")
     (simp add: get_total_coverage_def ctx_run_def split: option.splits)

lemma get_total_coverage_InrD:
  assumes "get_total_coverage tool d w = (Inr pct, w1)"
  shows "re_search (fst (snd (tool (report_command d) [] (fs w)))) = Some pct"
    and "w1 = (emit (Run (report_command d) []) w)\<lparr>fs := snd (snd (tool (report_command d) [] (fs w)))\<rparr>"
  using assms
  by (cases "tool (report_command d) [] (fs w)";
      auto simp: get_total_coverage_def ctx_run_def split: option.splits if_splits)+

lemma coverage_loop_absent:
  "fs w (category_dat tb test_type) = None \<Longrightarrow>
   coverage_loop tool tb (test_type # rest) coverage_files w
     = coverage_loop tool tb rest coverage_files
         (emit (missing_dat_warning test_type (category_dat tb test_type)) w)"
  by (simp add: Let_def)

lemma coverage_loop_present:
  assumes "fs w (category_dat tb test_type) \<noteq> None"
    and "get_total_coverage tool (category_dat tb test_type) w = (Inr percentage, w1)"
    and "fs w1 (category_dat tb test_type) = Some content"
  shows "coverage_loop tool tb (test_type # rest) coverage_files w
           = coverage_loop tool tb rest (coverage_files @ [temp_copy_of (category_dat tb test_type)])
               ((emit (Print (title test_type @ '' test coverage: '' @ percentage)) w1)
                  \<lparr>fs := (fs w1)(temp_copy_of (category_dat tb test_type) \<mapsto> content)\<rparr>)"
  using assms by (auto simp: Let_def shutil_copy_def)

lemma coverage_loop_all_absent:
  "(\<forall>t \<in> set ts. fs w (category_dat tb t) = None) \<Longrightarrow>
   coverage_loop tool tb ts coverage_files w
     = (Inr coverage_files,
        w\<lparr>trace := trace w @ map (\<lambda>t. missing_dat_warning t (category_dat tb t)) ts\<rparr>)"
proof (induction ts arbitrary: w)
  case Nil
  show ?case by simp
next
  case (Cons t ts)
  have "coverage_loop tool tb (t # ts) coverage_files w
          = coverage_loop tool tb ts coverage_files (emit (missing_dat_warning t (category_dat tb t)) w)"
    using Cons.prems by (simp add: coverage_loop_absent)
  also have "\<dots> = (Inr coverage_files,
        (emit (missing_dat_warning t (category_dat tb t)) w)
          \<lparr>trace := trace (emit (missing_dat_warning t (category_dat tb t)) w)
                      @ map (\<lambda>t. missing_dat_warning t (category_dat tb t)) ts\<rparr>)"
    using Cons.prems by (intro Cons.IH) simp
  finally show ?case by (simp add: emit_def)
qed

lemma coverage_loop_files:
  "coverage_loop tool tb ts acc w = (Inr coverage_files, w') \<Longrightarrow>
   \<exists>present. set present \<subseteq> set ts
            \<and> coverage_files = acc @ map (\<lambda>t. temp_copy_of (category_dat tb t)) present"
proof (induction ts arbitrary: acc w)
  case Nil
  then show ?case by simp
next
  case (Cons t ts)
  show ?case
  proof (cases "fs w (category_dat tb t) = None")
    case True
    with Cons.prems have "coverage_loop tool tb ts acc (emit (missing_dat_warning t (category_dat tb t)) w)
                            = (Inr coverage_files, w')"
      by (simp add: coverage_loop_absent)
    from Cons.IH[OF this] obtain present where
      "set present \<subseteq> set ts" "coverage_files = acc @ map (\<lambda>t. temp_copy_of (category_dat tb t)) present"
      by blast
    then have "set present \<subseteq> set (t # ts)" by auto
    with \<open>coverage_files = acc @ map (\<lambda>t. temp_copy_of (category_dat tb t)) present\<close> show ?thesis by blast
  next
    case False
    with Cons.prems obtain w3 where
      "coverage_loop tool tb ts (acc @ [temp_copy_of (category_dat tb t)]) w3 = (Inr coverage_files, w')"
      by (auto simp: Let_def split: prod.splits sum.splits)
    from Cons.IH[OF this] obtain present where
      p: "set present \<subseteq> set ts"
         "coverage_files = (acc @ [temp_copy_of (category_dat tb t)]) @ map (\<lambda>t. temp_copy_of (category_dat tb t)) present"
      by blast
    then have "set (t # present) \<subseteq> set (t # ts)"
      and "coverage_files = acc @ map (\<lambda>t. temp_copy_of (category_dat tb t)) (t # present)"
      by auto
    then show ?thesis by blast
  qed
qed

lemma coverage_report_body_after_loop:
  assumes "coverage_loop tool tb (test_types tb) []
             (emit (EnsureReportsDir (toolbox.reports_directory tb))
                (emit (Header ''Generating coverage report'' None (Some page)) w)) = (Inr coverage_files, w3)"
  shows "\<exists>later. commands (snd (coverage_report_body tool tb w))
           = commands w3 @ combine_command (toolbox.reports_directory tb @ ''/coverage.dat'') coverage_files
                             (toolbox.reports_directory tb @ ''/coverage-report'') # later"
proof -
  let ?c = "combine_command (toolbox.reports_directory tb @ ''/coverage.dat'') coverage_files
              (toolbox.reports_directory tb @ ''/coverage-report'')"
  obtain r4 w4 where c: "ctx_run tool ?c [] w3 = (r4, w4)" by (cases "ctx_run tool ?c [] w3")
  have c4: "commands w4 = commands w3 @ [?c]"
    using ctx_run_commands[of tool ?c "[]" w3] c by simp
  show ?thesis
  proof (cases r4)
    case (Inl e)
    then show ?thesis using assms c c4 by (simp add: coverage_report_body_def Let_def)
  next
    case (Inr out)
    obtain r5 w5 where g: "get_total_coverage tool (toolbox.reports_directory tb @ ''/coverage.dat'') w4 = (r5, w5)"
      by (cases "get_total_coverage tool (toolbox.reports_directory tb @ ''/coverage.dat'') w4")
    have c5: "commands w5 = commands w4 @ [report_command (toolbox.reports_directory tb @ ''/coverage.dat'')]"
      using get_total_coverage_commands[of tool "toolbox.reports_directory tb @ ''/coverage.dat''" w4] g by simp
    show ?thesis
      using assms c c4 Inr g c5
      by (cases r5) (simp_all add: coverage_report_body_def Let_def)
  qed
qed

lemma command_of_warning [simp]: "command_of (missing_dat_warning t d) = []"
  by (simp add: missing_dat_warning_def)

lemma ctx_run_trace: "trace (snd (ctx_run tool cmd env w)) = trace w @ [Run cmd env]"
  by (cases "tool cmd env (fs w)") (simp add: ctx_run_def)

lemma get_total_coverage_trace:
  "trace (snd (get_total_coverage tool d w)) = trace w @ [Run (report_command d) []]"
  by (cases "tool (report_command d) [] (fs w)")
     (simp add: get_total_coverage_def ctx_run_def split: option.splits)

lemma coverage_report_body_trace_after_loop:
  assumes "coverage_loop tool tb (test_types tb) []
             (emit (EnsureReportsDir (toolbox.reports_directory tb))
                (emit (Header ''Generating coverage report'' None (Some page)) w)) = (Inr coverage_files, w3)"
  shows "\<exists>later. trace (snd (coverage_report_body tool tb w))
           = trace w3 @ Run (combine_command (toolbox.reports_directory tb @ ''/coverage.dat'') coverage_files
                               (toolbox.reports_directory tb @ ''/coverage-report'')) [] # later"
proof -
  let ?c = "combine_command (toolbox.reports_directory tb @ ''/coverage.dat'') coverage_files
              (toolbox.reports_directory tb @ ''/coverage-report'')"
  obtain r4 w4 where c: "ctx_run tool ?c [] w3 = (r4, w4)" by (cases "ctx_run tool ?c [] w3")
  have c4: "trace w4 = trace w3 @ [Run ?c []]"
    using ctx_run_trace[of tool ?c "[]" w3] c by simp
  show ?thesis
  proof (cases r4)
    case (Inl e)
    then show ?thesis using assms c c4 by (simp add: coverage_report_body_def Let_def)
  next
    case (Inr out)
    obtain r5 w5 where g: "get_total_coverage tool (toolbox.reports_directory tb @ ''/coverage.dat'') w4 = (r5, w5)"
      by (cases "get_total_coverage tool (toolbox.reports_directory tb @ ''/coverage.dat'') w4")
    have c5: "trace w5 = trace w4 @ [Run (report_command (toolbox.reports_directory tb @ ''/coverage.dat'')) []]"
      using get_total_coverage_trace[of tool "toolbox.reports_directory tb @ ''/coverage.dat''" w4] g by simp
    show ?thesis
      using assms c c4 Inr g c5
      by (cases r5) (simp_all add: coverage_report_body_def Let_def)
  qed
qed

lemma tb0_simps [simp]:
  "test_types tb0 = [''unit'', ''integration'']" "toolbox.reports_directory tb0 = ''/proj/reports''"
  "toolbox.tests_directory tb0 = Some ''/proj/tests''" "sources_directory tb0 = ''/proj/src''"
  by (simp_all add: tb0_def)

lemma category_dat_tb0 [simp]:
  "category_dat tb0 ''unit'' = ''/proj/reports/coverage-unit.dat''"
  "category_dat tb0 ''integration'' = ''/proj/reports/coverage-integration.dat''"
  by (simp_all add: category_dat_eq)

lemma temp_copy_concrete [simp]:
  "temp_copy_of ''/proj/reports/coverage-unit.dat'' = ''/proj/reports/coverage-unit-copy.dat''"
  "temp_copy_of ''/proj/reports/coverage-integration.dat'' = ''/proj/reports/coverage-integration-copy.dat''"
  "temp_copy_of ''/proj/reports/coverage-unit-copy.dat'' = ''/proj/reports/coverage-unit-copy-copy.dat''"
  by (simp_all add: temp_copy_of_def with_name_def path_name_def)

lemma tool_coverage_reports [simp]:
  "get_total_coverage tool_coverage ''/proj/reports/coverage-unit.dat'' w
     = (Inr ''80%'', emit (Run (report_command ''/proj/reports/coverage-unit.dat'') []) w)"
  "get_total_coverage tool_coverage ''/proj/reports/coverage-integration.dat'' w
     = (Inr ''60%'', emit (Run (report_command ''/proj/reports/coverage-integration.dat'') []) w)"
  "get_total_coverage tool_coverage ''/proj/reports/coverage.dat'' w
     = (Inr ''75%'', emit (Run (report_command ''/proj/reports/coverage.dat'') []) w)"
  by (simp_all add: get_total_coverage_def ctx_run_def tool_coverage_def report_command_def
        match_at_def group_at_def pct_here_def is_class_def nl_def emit_def)

lemma loop_integration_only:
  "fst (coverage_loop tool_coverage tb0 [''unit'', ''integration''] [] w_integration_only)
     = Inr [''/proj/reports/coverage-integration-copy.dat'']"
  by (simp add: Let_def w_integration_only_def shutil_copy_def emit_def)

lemma body_nothing_present:
  "commands (snd (coverage_report_body tool_coverage tb0 w0))
     = [combine_command ''/proj/reports/coverage.dat'' [] ''/proj/reports/coverage-report'',
        report_command ''/proj/reports/coverage.dat'']"
  by (simp add: coverage_report_body_def Let_def ctx_run_def tool_coverage_def
        combine_command_def report_command_def)

lemma w_both_fs [simp]:
  "fs w_both = [''/proj/reports/coverage-unit.dat'' \<mapsto> ''unit data'',
                ''/proj/reports/coverage-integration.dat'' \<mapsto> ''integration data'']"
  "trace w_both = []" "commands w_both = []"
  by (simp_all add: w_both_def commands_def)

lemma loop_both:
  "fst (coverage_loop tool_coverage tb0 [''unit'', ''integration''] []
         (emit (EnsureReportsDir ''/proj/reports'')
            (emit (Header ''Generating coverage report'' None (Some page)) w_both)))
     = Inr [''/proj/reports/coverage-unit-copy.dat'', ''/proj/reports/coverage-integration-copy.dat'']"
  "commands (snd (coverage_loop tool_coverage tb0 [''unit'', ''integration''] []
         (emit (EnsureReportsDir ''/proj/reports'')
            (emit (Header ''Generating coverage report'' None (Some page)) w_both))))
     = [report_command ''/proj/reports/coverage-unit.dat'', report_command ''/proj/reports/coverage-integration.dat'']"
  by (simp_all add: Let_def shutil_copy_def)

lemma body_both:
  "fst (coverage_report_body tool_coverage tb0 w_both) = Inr ()"
  "commands (snd (coverage_report_body tool_coverage tb0 w_both))
     = [report_command ''/proj/reports/coverage-unit.dat'',
        report_command ''/proj/reports/coverage-integration.dat'',
        combine_command ''/proj/reports/coverage.dat''
          [''/proj/reports/coverage-unit-copy.dat'', ''/proj/reports/coverage-integration-copy.dat'']
          ''/proj/reports/coverage-report'',
        report_command ''/proj/reports/coverage.dat'']"
  "fs (snd (coverage_report_body tool_coverage tb0 w_both)) ''/proj/reports/coverage-unit.dat'' = Some ''unit data''"
  "fs (snd (coverage_report_body tool_coverage tb0 w_both)) ''/proj/reports/coverage-integration.dat''
     = Some ''integration data''"
proof -
  have c: "ctx_run tool_coverage
             (combine_command ''/proj/reports/coverage.dat''
                [''/proj/reports/coverage-unit-copy.dat'', ''/proj/reports/coverage-integration-copy.dat'']
                ''/proj/reports/coverage-report'') [] w
           = (Inr [], (emit (Run (combine_command ''/proj/reports/coverage.dat''
                [''/proj/reports/coverage-unit-copy.dat'', ''/proj/reports/coverage-integration-copy.dat'']
                ''/proj/reports/coverage-report'') []) w)
                \<lparr>fs := ((fs w)(''/proj/reports/coverage.dat'' \<mapsto> ''combined data''))
                     (''/proj/reports/coverage-unit-copy.dat'' := None,
                      ''/proj/reports/coverage-integration-copy.dat'' := None)\<rparr>)" for w
    by (simp add: ctx_run_def tool_coverage_def combine_command_def report_command_def)
  show "fst (coverage_report_body tool_coverage tb0 w_both) = Inr ()"
    by (simp add: coverage_report_body_def Let_def shutil_copy_def c)
  show "commands (snd (coverage_report_body tool_coverage tb0 w_both))
     = [report_command ''/proj/reports/coverage-unit.dat'',
        report_command ''/proj/reports/coverage-integration.dat'',
        combine_command ''/proj/reports/coverage.dat''
          [''/proj/reports/coverage-unit-copy.dat'', ''/proj/reports/coverage-integration-copy.dat'']
          ''/proj/reports/coverage-report'',
        report_command ''/proj/reports/coverage.dat'']"
    by (simp add: coverage_report_body_def Let_def shutil_copy_def c)
  show "fs (snd (coverage_report_body tool_coverage tb0 w_both)) ''/proj/reports/coverage-unit.dat'' = Some ''unit data''"
    by (simp add: coverage_report_body_def Let_def shutil_copy_def c)
  show "fs (snd (coverage_report_body tool_coverage tb0 w_both)) ''/proj/reports/coverage-integration.dat''
     = Some ''integration data''"
    by (simp add: coverage_report_body_def Let_def shutil_copy_def c)
qed

lemma tb_clash_simps [simp]:
  "test_types tb_clash = [''unit'', ''unit-copy'']" "toolbox.reports_directory tb_clash = ''/proj/reports''"
  by (simp_all add: tb_clash_def)

lemma coverage_report_body_okE:
  assumes "fst (coverage_report_body tool tb w) = Inr ()"
  obtains coverage_files w3 out w4 total_coverage refer where
    "coverage_loop tool tb (test_types tb) []
       (emit (EnsureReportsDir (toolbox.reports_directory tb))
          (emit (Header ''Generating coverage report'' None (Some page)) w)) = (Inr coverage_files, w3)"
    "ctx_run tool (combine_command (toolbox.reports_directory tb @ ''/coverage.dat'') coverage_files
                     (toolbox.reports_directory tb @ ''/coverage-report'')) [] w3 = (Inr out, w4)"
    "fst (tool (report_command (toolbox.reports_directory tb @ ''/coverage.dat'')) [] (fs w4)) = 0"
    "re_search (fst (snd (tool (report_command (toolbox.reports_directory tb @ ''/coverage.dat'')) []
                            (fs w4)))) = Some total_coverage"
    "trace (snd (coverage_report_body tool tb w))
       = trace w4 @ [Run (report_command (toolbox.reports_directory tb @ ''/coverage.dat'')) [],
                     Print (''Total coverage: '' @ total_coverage @ [nl]),
                     Print refer]"
proof -
  let ?w2 = "emit (EnsureReportsDir (toolbox.reports_directory tb))
                (emit (Header ''Generating coverage report'' None (Some page)) w)"
  let ?dat = "toolbox.reports_directory tb @ ''/coverage.dat''"
  obtain r3 w3 where l: "coverage_loop tool tb (test_types tb) [] ?w2 = (r3, w3)"
    by (cases "coverage_loop tool tb (test_types tb) [] ?w2")
  from assms l obtain coverage_files where r3: "r3 = Inr coverage_files"
    by (cases r3) (auto simp: coverage_report_body_def Let_def)
  let ?c = "combine_command ?dat coverage_files (toolbox.reports_directory tb @ ''/coverage-report'')"
  obtain r4 w4 where c: "ctx_run tool ?c [] w3 = (r4, w4)" by (cases "ctx_run tool ?c [] w3")
  from assms l r3 c obtain out where r4: "r4 = Inr out"
    by (cases r4) (auto simp: coverage_report_body_def Let_def)
  obtain r5 w5 where g: "get_total_coverage tool ?dat w4 = (r5, w5)"
    by (cases "get_total_coverage tool ?dat w4")
  from assms l r3 c r4 g obtain total_coverage where r5: "r5 = Inr total_coverage"
    by (cases r5) (auto simp: coverage_report_body_def Let_def)
  from g r5 have g': "get_total_coverage tool ?dat w4 = (Inr total_coverage, w5)" by simp
  have s: "re_search (fst (snd (tool (report_command ?dat) [] (fs w4)))) = Some total_coverage"
    by (rule get_total_coverage_InrD(1)[OF g'])
  have z: "fst (tool (report_command ?dat) [] (fs w4)) = 0"
    using g' by (cases "tool (report_command ?dat) [] (fs w4)")
                (auto simp: get_total_coverage_def ctx_run_def split: if_splits)
  have t5: "trace w5 = trace w4 @ [Run (report_command ?dat) []]"
    using get_total_coverage_trace[of tool ?dat w4] g' by simp
  obtain refer where "trace (snd (coverage_report_body tool tb w))
          = trace w4 @ [Run (report_command ?dat) [], Print (''Total coverage: '' @ total_coverage @ [nl]),
                        Print refer]"
    using l r3 c r4 g' t5 by (simp add: coverage_report_body_def Let_def)
  with l r3 c r4 s z show ?thesis using that by simp
qed

text \<open>
  The temporary copies. Each present coverage data file is copied to its temporary
  copy, a different path, and the original keeps its contents; the combine step is given
  the temporary copies only; and none of the paths it is given is a category's data file,
  provided no category's data file is named like the temporary copy of another's.
\<close>

lemma only_temp_copies_combined:
  "(fs w (category_dat tb test_type) \<noteq> None
      \<and> get_total_coverage tool (category_dat tb test_type) w = (Inr percentage, w1)
      \<and> fs w1 (category_dat tb test_type) = Some content \<longrightarrow>
    (\<exists>w3. coverage_loop tool tb (test_type # rest) acc w
            = coverage_loop tool tb rest (acc @ [temp_copy_of (category_dat tb test_type)]) w3
          \<and> fs w3 (temp_copy_of (category_dat tb test_type)) = Some content
          \<and> fs w3 (category_dat tb test_type) = Some content))
   \<and> (coverage_loop tool tb (test_types tb) []
         (emit (EnsureReportsDir (toolbox.reports_directory tb))
            (emit (Header ''Generating coverage report'' None (Some page)) v)) = (Inr coverage_files, v3) \<longrightarrow>
      (\<exists>later. commands (snd (coverage_report_body tool tb v))
                 = commands v3 @ combine_command (toolbox.reports_directory tb @ ''/coverage.dat'') coverage_files
                                   (toolbox.reports_directory tb @ ''/coverage-report'') # later)
      \<and> (\<exists>present. set present \<subseteq> set (test_types tb)
                    \<and> coverage_files = map (\<lambda>t. temp_copy_of (category_dat tb t)) present)
      \<and> ((\<forall>t \<in> set (test_types tb). \<forall>u \<in> set (test_types tb).
             temp_copy_of (category_dat tb t) \<noteq> category_dat tb u) \<longrightarrow>
          (\<forall>u \<in> set (test_types tb). category_dat tb u \<notin> set coverage_files)))"
proof (intro conjI impI)
  assume a: "fs w (category_dat tb test_type) \<noteq> None
      \<and> get_total_coverage tool (category_dat tb test_type) w = (Inr percentage, w1)
      \<and> fs w1 (category_dat tb test_type) = Some content"
  let ?d = "category_dat tb test_type"
  let ?w3 = "(emit (Print (title test_type @ '' test coverage: '' @ percentage)) w1)
                  \<lparr>fs := (fs w1)(temp_copy_of ?d \<mapsto> content)\<rparr>"
  have "coverage_loop tool tb (test_type # rest) acc w
          = coverage_loop tool tb rest (acc @ [temp_copy_of ?d]) ?w3"
    using a by (intro coverage_loop_present) auto
  moreover have "fs ?w3 (temp_copy_of ?d) = Some content" by simp
  moreover have "fs ?w3 ?d = Some content"
    using a temp_copy_category_differs[of tb test_type] by auto
  ultimately show "\<exists>w3. coverage_loop tool tb (test_type # rest) acc w
            = coverage_loop tool tb rest (acc @ [temp_copy_of ?d]) w3
          \<and> fs w3 (temp_copy_of ?d) = Some content
          \<and> fs w3 ?d = Some content"
    by blast
next
  assume l: "coverage_loop tool tb (test_types tb) []
         (emit (EnsureReportsDir (toolbox.reports_directory tb))
            (emit (Header ''Generating coverage report'' None (Some page)) v)) = (Inr coverage_files, v3)"
  show "\<exists>later. commands (snd (coverage_report_body tool tb v))
                 = commands v3 @ combine_command (toolbox.reports_directory tb @ ''/coverage.dat'') coverage_files
                                   (toolbox.reports_directory tb @ ''/coverage-report'') # later"
    using l by (rule coverage_report_body_after_loop)
  from coverage_loop_files[OF l]
  show p: "\<exists>present. set present \<subseteq> set (test_types tb)
                    \<and> coverage_files = map (\<lambda>t. temp_copy_of (category_dat tb t)) present"
    by simp
  assume n: "\<forall>t \<in> set (test_types tb). \<forall>u \<in> set (test_types tb).
             temp_copy_of (category_dat tb t) \<noteq> category_dat tb u"
  from p obtain present where
    "set present \<subseteq> set (test_types tb)" "coverage_files = map (\<lambda>t. temp_copy_of (category_dat tb t)) present"
    by blast
  with n show "\<forall>u \<in> set (test_types tb). category_dat tb u \<notin> set coverage_files"
    by (fastforce simp: subset_iff)
qed

lemma only_temp_copies_combined_example:
  "fs w_both (category_dat tb0 ''unit'') \<noteq> None
   \<and> fst (coverage_loop tool_coverage tb0 (test_types tb0) []
            (emit (EnsureReportsDir (toolbox.reports_directory tb0))
               (emit (Header ''Generating coverage report'' None (Some page)) w_both)))
       = Inr [''/proj/reports/coverage-unit-copy.dat'', ''/proj/reports/coverage-integration-copy.dat'']
   \<and> category_dat tb0 ''unit''
        \<notin> set [''/proj/reports/coverage-unit-copy.dat'', ''/proj/reports/coverage-integration-copy.dat'']
   \<and> category_dat tb0 ''integration''
        \<notin> set [''/proj/reports/coverage-unit-copy.dat'', ''/proj/reports/coverage-integration-copy.dat'']
   \<and> (\<exists>w3. coverage_loop tool_coverage tb0 [''unit'', ''integration''] [] w_both
             = coverage_loop tool_coverage tb0 [''integration''] [''/proj/reports/coverage-unit-copy.dat''] w3
           \<and> fs w3 ''/proj/reports/coverage-unit-copy.dat'' = Some ''unit data''
           \<and> fs w3 ''/proj/reports/coverage-unit.dat'' = Some ''unit data'')"
proof -
  let ?v2 = "emit (EnsureReportsDir (toolbox.reports_directory tb0))
               (emit (Header ''Generating coverage report'' None (Some page)) w_both)"
  let ?files = "[''/proj/reports/coverage-unit-copy.dat'', ''/proj/reports/coverage-integration-copy.dat'']"
  have h1: "fs w_both (category_dat tb0 ''unit'') \<noteq> None
      \<and> get_total_coverage tool_coverage (category_dat tb0 ''unit'') w_both
          = (Inr ''80%'', emit (Run (report_command ''/proj/reports/coverage-unit.dat'') []) w_both)
      \<and> fs (emit (Run (report_command ''/proj/reports/coverage-unit.dat'') []) w_both) (category_dat tb0 ''unit'')
          = Some ''unit data''"
    by simp
  have f: "fst (coverage_loop tool_coverage tb0 (test_types tb0) [] ?v2) = Inr ?files"
    using loop_both(1) by simp
  then have h2: "coverage_loop tool_coverage tb0 (test_types tb0) [] ?v2
                   = (Inr ?files, snd (coverage_loop tool_coverage tb0 (test_types tb0) [] ?v2))"
    by (simp add: prod_eq_iff)
  have h3: "\<forall>t \<in> set (test_types tb0). \<forall>u \<in> set (test_types tb0).
             temp_copy_of (category_dat tb0 t) \<noteq> category_dat tb0 u"
    by simp
  from only_temp_copies_combined[of w_both tb0 "''unit''" tool_coverage "''80%''"
         "emit (Run (report_command ''/proj/reports/coverage-unit.dat'') []) w_both" "''unit data''"
         "[''integration'']" "[]" w_both ?files "snd (coverage_loop tool_coverage tb0 (test_types tb0) [] ?v2)"]
       h1 h2 h3
  have "(\<exists>w3. coverage_loop tool_coverage tb0 [''unit'', ''integration''] [] w_both
             = coverage_loop tool_coverage tb0 [''integration''] [''/proj/reports/coverage-unit-copy.dat''] w3
           \<and> fs w3 ''/proj/reports/coverage-unit-copy.dat'' = Some ''unit data''
           \<and> fs w3 ''/proj/reports/coverage-unit.dat'' = Some ''unit data'')"
    and "\<forall>u \<in> set (test_types tb0). category_dat tb0 u \<notin> set ?files"
    by simp_all
  with h1 f show ?thesis by simp
qed

text \<open>
  C7. The aggregator is to pass only temporary copies to the combine step, so that no
  category's own data file is consumed by it. The code breaks this for the categories
  \<^verbatim>\<open>unit\<close> and \<^verbatim>\<open>unit-copy\<close>: the path of the temporary copy of the first is the data file of
  the second, which is overwritten with the first's data and then passed to the combine
  step.
\<close>

theorem temp_copy_overwrites_other_category:
  "fst (coverage_loop tool_total80 tb_clash (test_types tb_clash) [] w_clash)
     = Inr [''/proj/reports/coverage-unit-copy.dat'', ''/proj/reports/coverage-unit-copy-copy.dat'']
   \<and> category_dat tb_clash ''unit-copy'' = ''/proj/reports/coverage-unit-copy.dat''
   \<and> fs w_clash (category_dat tb_clash ''unit-copy'') = Some ''unit-copy data''
   \<and> fs (snd (coverage_loop tool_total80 tb_clash (test_types tb_clash) [] w_clash))
        (category_dat tb_clash ''unit-copy'') = Some ''unit data''"
  by (simp add: category_dat_eq Let_def w_clash_def shutil_copy_def get_total_coverage_def ctx_run_def
        tool_total80_def match_at_def group_at_def pct_here_def is_class_def nl_def)

text \<open>
  C8. Without the index file of the combined report, \<^verbatim>\<open>coverage_open\<close> shows the guidance
  message and exits with code 1; it opens the browser exactly when the index file exists.
\<close>

theorem coverage_open_guard:
  "(fs w (toolbox.reports_directory tb @ ''/coverage-report/index.html'') = None \<longrightarrow>
      fst (coverage_open coverage_report_name test_all_name cwd tb w) = Inl (Exit 1)
      \<and> added w (snd (coverage_open coverage_report_name test_all_name cwd tb w))
          = [Secho (''Could not find coverage report '' @ [sq]
                    @ toolbox.reports_directory tb @ ''/coverage-report/index.html'' @ [sq]
                    @ ''. Ensure that the report has been built.'' @ [nl]
                    @ ''Try one of the following:'' @ [nl]
                    @ ''  pipenv run inv '' @ coverage_report_name @ [nl]
                    @ ''or'' @ [nl]
                    @ ''  pipenv run inv '' @ test_all_name) ''red''])
   \<and> (fs w (toolbox.reports_directory tb @ ''/coverage-report/index.html'') \<noteq> None \<longrightarrow>
      fst (coverage_open coverage_report_name test_all_name cwd tb w) = Inr ()
      \<and> added w (snd (coverage_open coverage_report_name test_all_name cwd tb w))
          = [BrowserOpen (''file:///'' @ absolute cwd (toolbox.reports_directory tb @ ''/coverage-report/index.html''))])
   \<and> ((\<exists>url. BrowserOpen url \<in> set (added w (snd (coverage_open coverage_report_name test_all_name cwd tb w))))
        \<longleftrightarrow> fs w (toolbox.reports_directory tb @ ''/coverage-report/index.html'') \<noteq> None)"
  by (auto simp: coverage_open_def Let_def added_def joinpath_def rstrip_slash_def)

theorem coverage_open_guard_witness:
  "fs w0 (toolbox.reports_directory tb0 @ ''/coverage-report/index.html'') = None
   \<and> fst (coverage_open ''coverage-report'' ''test-all'' ''/proj'' tb0 w0) = Inl (Exit 1)
   \<and> length (added w0 (snd (coverage_open ''coverage-report'' ''test-all'' ''/proj'' tb0 w0))) = 1
   \<and> fs w_report (toolbox.reports_directory tb0 @ ''/coverage-report/index.html'') \<noteq> None
   \<and> fst (coverage_open ''coverage-report'' ''test-all'' ''/proj'' tb0 w_report) = Inr ()
   \<and> added w_report (snd (coverage_open ''coverage-report'' ''test-all'' ''/proj'' tb0 w_report))
       = [BrowserOpen ''file:////proj/reports/coverage-report/index.html'']"
proof -
  have h1: "fs w0 (toolbox.reports_directory tb0 @ ''/coverage-report/index.html'') = None" by simp
  have h2: "fs w_report (toolbox.reports_directory tb0 @ ''/coverage-report/index.html'') \<noteq> None"
    by (simp add: w_report_def)
  from coverage_open_guard[of w0 tb0 "''coverage-report''" "''test-all''" "''/proj''"] h1
       coverage_open_guard[of w_report tb0 "''coverage-report''" "''test-all''" "''/proj''"] h2
  show ?thesis by (simp add: absolute_def)
qed

section \<open>The names of the report files\<close>

lemma run_tests_added:
  assumes "name \<in> set (test_types tb)" and "toolbox.tests_directory tb = Some tests_dir"
  shows "added w (snd (run_tests_body tool tb name maxfail debug w))
           = [Header (variation_selector @ ''Running '' @ name @ '' tests'' @ variation_selector)
                None (Some (magnifier @ bug)),
              EnsureReportsDir (toolbox.reports_directory tb),
              Run (pytest_command tb tests_dir name maxfail debug)
                [(''COVERAGE_FILE'', toolbox.reports_directory tb @ ''/coverage-'' @ name @ ''.dat'')]]"
proof -
  have j: "joinpath (toolbox.reports_directory tb) (''coverage-'' @ name @ ''.dat'')
             = toolbox.reports_directory tb @ ''/coverage-'' @ name @ ''.dat''"
    using rstrip_slash_dat[of "''coverage-'' @ name"] by (simp add: joinpath_def)
  obtain r w' where c: "ctx_run tool (pytest_command tb tests_dir name maxfail debug)
                 [(''COVERAGE_FILE'', toolbox.reports_directory tb @ ''/coverage-'' @ name @ ''.dat'')]
                 (emit (EnsureReportsDir (toolbox.reports_directory tb))
                   (emit (Header (variation_selector @ ''Running '' @ name @ '' tests'' @ variation_selector)
                            None (Some (magnifier @ bug))) w)) = (r, w')"
    by (cases "ctx_run tool (pytest_command tb tests_dir name maxfail debug)
                 [(''COVERAGE_FILE'', toolbox.reports_directory tb @ ''/coverage-'' @ name @ ''.dat'')]
                 (emit (EnsureReportsDir (toolbox.reports_directory tb))
                   (emit (Header (variation_selector @ ''Running '' @ name @ '' tests'' @ variation_selector)
                            None (Some (magnifier @ bug))) w))")
  have t: "trace w' = trace w @ [Header (variation_selector @ ''Running '' @ name @ '' tests'' @ variation_selector)
                None (Some (magnifier @ bug)),
              EnsureReportsDir (toolbox.reports_directory tb),
              Run (pytest_command tb tests_dir name maxfail debug)
                [(''COVERAGE_FILE'', toolbox.reports_directory tb @ ''/coverage-'' @ name @ ''.dat'')]]"
    using ctx_run_trace[of tool "pytest_command tb tests_dir name maxfail debug"
            "[(''COVERAGE_FILE'', toolbox.reports_directory tb @ ''/coverage-'' @ name @ ''.dat'')]"
            "emit (EnsureReportsDir (toolbox.reports_directory tb))
                   (emit (Header (variation_selector @ ''Running '' @ name @ '' tests'' @ variation_selector)
                            None (Some (magnifier @ bug))) w)"] c
    by simp
  show ?thesis
    using assms c t j
    by (cases r) (simp_all add: run_tests_body_def Let_def added_def)
qed

lemma pytest_command_xml:
  "\<exists>a b. pytest_command tb tests_dir name maxfail debug
           = a @ ''--cov-report='' @ [dq] @ ''xml:'' @ toolbox.reports_directory tb @ ''/coverage-'' @ name @ ''.xml''
             @ [dq] @ b"
proof -
  have j: "joinpath (toolbox.reports_directory tb) (''coverage-'' @ name @ ''.xml'')
             = toolbox.reports_directory tb @ ''/coverage-'' @ name @ ''.xml''"
    using rstrip_slash_xml[of "''coverage-'' @ name"] by (simp add: joinpath_def)
  have "pytest_command tb tests_dir name maxfail debug
          = ([nl] @ ''        pytest '' @ ''            --cov='' @ sources_directory tb @ '' '' @ ''            '')
            @ ''--cov-report='' @ [dq] @ ''xml:'' @ toolbox.reports_directory tb @ ''/coverage-'' @ name @ ''.xml''
            @ [dq] @ ('' '' @ ''            --cov-branch -vv --maxfail='' @ show_int maxfail @ '' ''
                      @ (if debug then ''-s'' else []) @ ''            '' @ joinpath tests_dir name @ [nl]
                      @ ''        '')"
    using j by (simp add: pytest_command_def)
  then show ?thesis by (rule_tac exI, rule_tac exI)
qed

lemma coverage_loop_trace:
  "\<exists>es. trace (snd (coverage_loop tool tb ts acc w)) = trace w @ es"
proof (induction ts arbitrary: acc w)
  case Nil
  show ?case by simp
next
  case (Cons t ts)
  show ?case
  proof (cases "fs w (category_dat tb t) = None")
    case True
    from Cons.IH[of acc "emit (missing_dat_warning t (category_dat tb t)) w"] obtain es where
      "trace (snd (coverage_loop tool tb ts acc (emit (missing_dat_warning t (category_dat tb t)) w)))
         = trace (emit (missing_dat_warning t (category_dat tb t)) w) @ es"
      by blast
    then show ?thesis using True by (simp add: coverage_loop_absent)
  next
    case nonempty: False
    then obtain c0 where False: "fs w (category_dat tb t) = Some c0" by auto
    obtain r1 w1 where g: "get_total_coverage tool (category_dat tb t) w = (r1, w1)"
      by (cases "get_total_coverage tool (category_dat tb t) w")
    have t1: "trace w1 = trace w @ [Run (report_command (category_dat tb t)) []]"
      using get_total_coverage_trace[of tool "category_dat tb t" w] g by simp
    show ?thesis
    proof (cases r1)
      case (Inl e)
      then show ?thesis using False g t1 by (simp add: Let_def)
    next
      case (Inr percentage)
      show ?thesis
      proof (cases "fs w1 (category_dat tb t)")
        case None
        then show ?thesis using False g t1 Inr by (simp add: Let_def shutil_copy_def)
      next
        case (Some content)
        let ?w3 = "(emit (Print (title t @ '' test coverage: '' @ percentage)) w1)
                  \<lparr>fs := (fs w1)(temp_copy_of (category_dat tb t) \<mapsto> content)\<rparr>"
        from Cons.IH[of "acc @ [temp_copy_of (category_dat tb t)]" ?w3] obtain es where
          "trace (snd (coverage_loop tool tb ts (acc @ [temp_copy_of (category_dat tb t)]) ?w3)) = trace ?w3 @ es"
          by blast
        then show ?thesis using False g t1 Inr Some by (simp add: Let_def shutil_copy_def)
      qed
    qed
  qed
qed

lemma coverage_report_body_runs:
  assumes "fst (coverage_report_body tool tb w) = Inr ()"
  shows "\<exists>coverage_files. 
           Run (combine_command (toolbox.reports_directory tb @ ''/coverage.dat'') coverage_files
                  (toolbox.reports_directory tb @ ''/coverage-report'')) []
             \<in> set (added w (snd (coverage_report_body tool tb w)))
         \<and> Run (report_command (toolbox.reports_directory tb @ ''/coverage.dat'')) []
             \<in> set (added w (snd (coverage_report_body tool tb w)))"
proof -
  from assms obtain coverage_files w3 out w4 total_coverage refer where
    l: "coverage_loop tool tb (test_types tb) []
       (emit (EnsureReportsDir (toolbox.reports_directory tb))
          (emit (Header ''Generating coverage report'' None (Some page)) w)) = (Inr coverage_files, w3)"
    and r: "ctx_run tool (combine_command (toolbox.reports_directory tb @ ''/coverage.dat'') coverage_files
                     (toolbox.reports_directory tb @ ''/coverage-report'')) [] w3 = (Inr out, w4)"
    and "fst (tool (report_command (toolbox.reports_directory tb @ ''/coverage.dat'')) [] (fs w4)) = 0"
    and "re_search (fst (snd (tool (report_command (toolbox.reports_directory tb @ ''/coverage.dat'')) []
                            (fs w4)))) = Some total_coverage"
    and t: "trace (snd (coverage_report_body tool tb w))
       = trace w4 @ [Run (report_command (toolbox.reports_directory tb @ ''/coverage.dat'')) [],
                     Print (''Total coverage: '' @ total_coverage @ [nl]),
                     Print refer]"
    by (rule coverage_report_body_okE)
  have "\<exists>es. trace w3 = trace w @ [Header ''Generating coverage report'' None (Some page),
                                       EnsureReportsDir (toolbox.reports_directory tb)] @ es"
    using coverage_loop_trace[of tool tb "test_types tb" "[]"
         "emit (EnsureReportsDir (toolbox.reports_directory tb))
                (emit (Header ''Generating coverage report'' None (Some page)) w)"]
    unfolding l by simp
  then obtain es where t3: "trace w3 = trace w @ [Header ''Generating coverage report'' None (Some page),
                                                 EnsureReportsDir (toolbox.reports_directory tb)] @ es" ..
  have t4: "trace w4 = trace w3 @ [Run (combine_command (toolbox.reports_directory tb @ ''/coverage.dat'')
                                         coverage_files (toolbox.reports_directory tb @ ''/coverage-report'')) []]"
    using ctx_run_trace[of tool "combine_command (toolbox.reports_directory tb @ ''/coverage.dat'')
                                         coverage_files (toolbox.reports_directory tb @ ''/coverage-report'')"
                          "[]" w3] r by simp
  have "Run (combine_command (toolbox.reports_directory tb @ ''/coverage.dat'') coverage_files
                  (toolbox.reports_directory tb @ ''/coverage-report'')) []
             \<in> set (added w (snd (coverage_report_body tool tb w)))
         \<and> Run (report_command (toolbox.reports_directory tb @ ''/coverage.dat'')) []
             \<in> set (added w (snd (coverage_report_body tool tb w)))"
    unfolding added_def t t4 t3 by simp
  then show ?thesis by (rule exI[where x = coverage_files])
qed

lemma coverage_open_ok_iff:
  "fst (coverage_open coverage_report_name test_all_name cwd tb y) = Inr ()
     \<longleftrightarrow> fs y (toolbox.reports_directory tb @ ''/coverage-report/index.html'') \<noteq> None"
  by (auto simp: coverage_open_def Let_def joinpath_def rstrip_slash_def)

end
